theory Spec2Isabelle
  imports Complex_Main
begin

section \<open>JavaScript values, errors and effects\<close>

text \<open>
  A JavaScript number: not-a-number, an infinity or a finite value. \<open>Math.max\<close> and
  \<open>Math.min\<close> give \<open>NaN\<close> as soon as one argument is \<open>NaN\<close>; every comparison with
  \<open>NaN\<close> is false.
\<close>

datatype jsnum = NaN | NegInf | Fin rat | PosInf

fun num_le :: "jsnum \<Rightarrow> jsnum \<Rightarrow> bool" where
  "num_le NaN _ = False"
| "num_le _ NaN = False"
| "num_le NegInf _ = True"
| "num_le _ PosInf = True"
| "num_le (Fin a) (Fin b) = (a \<le> b)"
| "num_le (Fin a) NegInf = False"
| "num_le PosInf (Fin b) = False"
| "num_le PosInf NegInf = False"

definition num_gt :: "jsnum \<Rightarrow> jsnum \<Rightarrow> bool" where
  "num_gt a b = (a \<noteq> NaN \<and> b \<noteq> NaN \<and> \<not> num_le a b)"

definition Math_max :: "jsnum \<Rightarrow> jsnum \<Rightarrow> jsnum" where
  "Math_max a b = (if a = NaN \<or> b = NaN then NaN else if num_le a b then b else a)"

definition Math_min :: "jsnum \<Rightarrow> jsnum \<Rightarrow> jsnum" where
  "Math_min a b = (if a = NaN \<or> b = NaN then NaN else if num_le a b then a else b)"

text \<open>
  Values that arrive from the network are untyped at run time: a claim of a token payload
  may hold any JSON value, whatever the TypeScript interface declares.
\<close>

datatype jsval =
    JNull
  | JBool bool
  | JNum jsnum
  | JStr string
  | JArr "jsval list"
  | JObj "(string \<times> jsval) list"

text \<open>
  Errors of the jose library carry a code and a message and no \<open>status\<close> property;
  \<open>HTTPException\<close> (hono) carries a numeric status; a plain \<open>Error\<close> only a message.
\<close>

datatype jose_error = JoseErr (jcode: string) (jmsg: string)

datatype error =
    HTTPException nat string
  | Error string
  | JOSEError jose_error

fun is_HTTPException :: "error \<Rightarrow> bool" where
  "is_HTTPException (HTTPException _ _) = True"
| "is_HTTPException _ = False"

fun err_message :: "error \<Rightarrow> string" where
  "err_message (HTTPException _ m) = m"
| "err_message (Error m) = m"
| "err_message (JOSEError e) = jmsg e"

fun err_status :: "error \<Rightarrow> nat option" where
  "err_status (HTTPException s _) = Some s"
| "err_status _ = None"

text \<open>
  A row of the table \<open>request_logs\<close> (\<open>RequestLog\<close> in middleware/request-logger.ts); its
  fields \<open>method\<close> and \<open>algorithm\<close> are \<open>log_method\<close> and \<open>log_algorithm\<close> here.
\<close>

record RequestLog =
  request_id :: string
  timestamp :: string
  log_method :: string
  path :: string
  status :: nat
  latency_ms :: int
  user_id :: "string option"
  log_algorithm :: "string option"
  token_type :: "jsval option"
  ip :: "string option"
  user_agent :: "string option"
  error_message :: "string option"

text \<open>
  What a request does besides computing its result: calls into the key and signature
  primitives, lines written with \<open>console.error\<close>, rows inserted into the D1 database, and
  PBKDF2 derivations with their iteration count.
\<close>

datatype event =
    Call string
  | ConsoleError string error
  | D1Insert RequestLog
  | DeriveBits jsnum

section \<open>utils/jwt.ts\<close>

datatype Algorithm = HS256 | RS256 | ES256

fun alg_name :: "Algorithm \<Rightarrow> string" where
  "alg_name HS256 = ''HS256''"
| "alg_name RS256 = ''RS256''"
| "alg_name ES256 = ''ES256''"

record TokenPayload =
  sub :: string
  email :: string
  iat :: "int option"
  exp_claim :: "int option"
  type :: "jsval option"

text \<open>
  \<open>JWTMiddlewareConfig\<close> (middleware/jwt-verify.ts) has the fields \<open>algorithm\<close>,
  \<open>secret\<close> and \<open>publicKey\<close> of \<open>JWTConfig\<close>; \<open>JWTConfig\<close> adds the rest.
\<close>

record JWTMiddlewareConfig =
  algorithm :: Algorithm
  secret :: "string option"
  publicKey :: "string option"

record JWTConfig = JWTMiddlewareConfig +
  privateKey :: "string option"
  accessTokenExpiry :: "string option"
  refreshTokenExpiry :: "string option"

text \<open>A key as jose accepts it: the raw bytes of a secret, or an imported key object.\<close>

datatype key = Uint8Array string | CryptoKey string

text \<open>
  The functions of the jose package and of the platform that \<open>utils/jwt.ts\<close> calls.
  They are not part of the repository, so the code is modelled over any implementation of
  them. The current time (seconds since the epoch) that jose reads from the clock is passed
  explicitly.
  \<^item> \<open>base64_utf8 s\<close> is \<open>Buffer.from(s, 'base64').toString('utf-8')\<close>;
  \<^item> \<open>jwtVerify token key algorithms now\<close> is \<open>jose.jwtVerify(token, key, {algorithms})\<close>;
  \<^item> \<open>signJWT payload alg expiry key now\<close> is
    \<open>new jose.SignJWT(payload).setProtectedHeader({alg}).setIssuedAt().setExpirationTime(expiry).sign(key)\<close>.
\<close>

record jose =
  base64_utf8 :: "string \<Rightarrow> string"
  importPKCS8 :: "string \<Rightarrow> Algorithm \<Rightarrow> jose_error + key"
  importSPKI :: "string \<Rightarrow> Algorithm \<Rightarrow> jose_error + key"
  jwtVerify :: "string \<Rightarrow> key \<Rightarrow> Algorithm list \<Rightarrow> int \<Rightarrow> jose_error + TokenPayload"
  signJWT :: "TokenPayload \<Rightarrow> Algorithm \<Rightarrow> string \<Rightarrow> key \<Rightarrow> int \<Rightarrow> jose_error + string"

text \<open>JavaScript's \<open>!s\<close> for a value that is a string or undefined.\<close>

fun falsy :: "string option \<Rightarrow> bool" where
  "falsy None = True"
| "falsy (Some s) = (s = [])"

definition decodeBase64Key :: "jose \<Rightarrow> string \<Rightarrow> string" where
  "decodeBase64Key lib base64Key = base64_utf8 lib base64Key"

definition getHS256Key :: "string \<Rightarrow> key" where
  "getHS256Key s = Uint8Array s"

definition importPrivateKey :: "jose \<Rightarrow> string \<Rightarrow> Algorithm \<Rightarrow> jose_error + key" where
  "importPrivateKey lib base64Key alg = importPKCS8 lib (decodeBase64Key lib base64Key) alg"

definition importPublicKey :: "jose \<Rightarrow> string \<Rightarrow> Algorithm \<Rightarrow> jose_error + key" where
  "importPublicKey lib base64Key alg = importSPKI lib (decodeBase64Key lib base64Key) alg"

text \<open>An effectful result: what is returned or thrown, and the events in order.\<close>

type_synonym 'a eff = "(error + 'a) \<times> event list"

definition lift_jose :: "jose_error + 'a \<Rightarrow> error + 'a" where
  "lift_jose r = (case r of Inl e \<Rightarrow> Inl (JOSEError e) | Inr v \<Rightarrow> Inr v)"

text \<open>
  The payload argument of the two generators is \<open>Omit<TokenPayload, 'iat' | 'exp' | 'type'>\<close>,
  that is \<open>sub\<close> and \<open>email\<close>: a pair here. The generators set \<open>type\<close> and leave
  \<open>iat\<close> and \<open>exp\<close> to jose. The destructuring defaults \<open>'15m'\<close> and \<open>'7d'\<close> apply when
  the configuration leaves the expiry undefined.
\<close>

definition generateAccessToken ::
  "jose \<Rightarrow> int \<Rightarrow> string \<times> string \<Rightarrow> JWTConfig \<Rightarrow> string eff" where
  "generateAccessToken lib now payload config =
     (let expiry = (case accessTokenExpiry config of None \<Rightarrow> ''15m'' | Some e \<Rightarrow> e);
          tokenPayload = \<lparr>sub = fst payload, email = snd payload, iat = None,
                           exp_claim = None, type = Some (JStr ''access'')\<rparr>
      in if algorithm config = HS256 then
           (if falsy (secret config) then (Inl (Error ''Secret is required for HS256''), [])
            else let k = getHS256Key (the (secret config))
                 in (lift_jose (signJWT lib tokenPayload HS256 expiry k now),
                     [Call ''TextEncoder.encode'', Call ''SignJWT.sign'']))
         else if falsy (privateKey config)
           then (Inl (Error ''Private key is required for RS256/ES256''), [])
         else (case importPrivateKey lib (the (privateKey config)) (algorithm config) of
                 Inl e \<Rightarrow> (Inl (JOSEError e), [Call ''jose.importPKCS8''])
               | Inr k \<Rightarrow>
                   (lift_jose (signJWT lib tokenPayload (algorithm config) expiry k now),
                    [Call ''jose.importPKCS8'', Call ''SignJWT.sign''])))"

definition generateRefreshToken ::
  "jose \<Rightarrow> int \<Rightarrow> string \<times> string \<Rightarrow> JWTConfig \<Rightarrow> string eff" where
  "generateRefreshToken lib now payload config =
     (let expiry = (case refreshTokenExpiry config of None \<Rightarrow> ''7d'' | Some e \<Rightarrow> e);
          tokenPayload = \<lparr>sub = fst payload, email = snd payload, iat = None,
                           exp_claim = None, type = Some (JStr ''refresh'')\<rparr>
      in if algorithm config = HS256 then
           (if falsy (secret config) then (Inl (Error ''Secret is required for HS256''), [])
            else let k = getHS256Key (the (secret config))
                 in (lift_jose (signJWT lib tokenPayload HS256 expiry k now),
                     [Call ''TextEncoder.encode'', Call ''SignJWT.sign'']))
         else if falsy (privateKey config)
           then (Inl (Error ''Private key is required for RS256/ES256''), [])
         else (case importPrivateKey lib (the (privateKey config)) (algorithm config) of
                 Inl e \<Rightarrow> (Inl (JOSEError e), [Call ''jose.importPKCS8''])
               | Inr k \<Rightarrow>
                   (lift_jose (signJWT lib tokenPayload (algorithm config) expiry k now),
                    [Call ''jose.importPKCS8'', Call ''SignJWT.sign''])))"

definition verifyToken :: "jose \<Rightarrow> int \<Rightarrow> string \<Rightarrow> JWTConfig \<Rightarrow> TokenPayload eff" where
  "verifyToken lib now token config =
     (if algorithm config = HS256 then
        (if falsy (secret config) then (Inl (Error ''Secret is required for HS256''), [])
         else let k = getHS256Key (the (secret config))
              in (lift_jose (jwtVerify lib token k [HS256] now),
                  [Call ''TextEncoder.encode'', Call ''jose.jwtVerify'']))
      else if falsy (publicKey config)
        then (Inl (Error ''Public key is required for RS256/ES256''), [])
      else (case importPublicKey lib (the (publicKey config)) (algorithm config) of
              Inl e \<Rightarrow> (Inl (JOSEError e), [Call ''jose.importSPKI''])
            | Inr k \<Rightarrow>
                (lift_jose (jwtVerify lib token k [algorithm config] now),
                 [Call ''jose.importSPKI'', Call ''jose.jwtVerify''])))"

section \<open>The hono context\<close>

datatype D1Database = D1Database string

record Bindings =
  JWT_HS256_SECRET :: "string option"
  JWT_RS256_PRIVATE_KEY :: "string option"
  JWT_RS256_PUBLIC_KEY :: "string option"
  JWT_ES256_PRIVATE_KEY :: "string option"
  JWT_ES256_PUBLIC_KEY :: "string option"
  TEST_USER_EMAIL :: "string option"
  TEST_USER_PASSWORD :: "string option"
  DB :: "D1Database option"

record Response =
  res_status :: nat
  res_body :: jsval

text \<open>
  The hono context of one request: the request (\<open>c.req\<close>), the bindings (\<open>c.env\<close>), the
  variables set with \<open>c.set\<close>, and the response (\<open>c.res\<close>).
\<close>

record Context =
  req_method :: string
  req_path :: string
  req_header :: "string \<Rightarrow> string option"
  req_query :: "string \<Rightarrow> string option"
  req_json :: "string \<rightharpoonup> jsval"
  env :: Bindings
  requestId :: "string option"
  jwtPayload :: "TokenPayload option"
  res :: Response

text \<open>A middleware takes \<open>next\<close>, the rest of the chain, and the context.\<close>

type_synonym MiddlewareHandler = "(Context \<Rightarrow> Context eff) \<Rightarrow> Context \<Rightarrow> Context eff"

section \<open>middleware/jwt-verify.ts\<close>

type_synonym KeyGetter = "Context \<Rightarrow> string option"

text \<open>\<open>s.split(sep)\<close> for a one-character separator: the empty string gives one empty part.\<close>

fun js_split :: "char \<Rightarrow> string \<Rightarrow> string list" where
  "js_split sep [] = [[]]"
| "js_split sep (c # cs) =
     (if c = sep then [] # js_split sep cs
      else (case js_split sep cs of
              [] \<Rightarrow> [[c]]
            | p # ps \<Rightarrow> (c # p) # ps))"

definition extractToken :: "Context \<Rightarrow> string option" where
  "extractToken c =
     (case req_header c ''Authorization'' of
        None \<Rightarrow> None
      | Some authHeader \<Rightarrow>
          if authHeader = [] then None
          else (let parts = js_split CHR '' '' authHeader
                in if length parts \<noteq> 2 \<or> parts ! 0 \<noteq> ''Bearer'' then None
                   else Some (parts ! 1)))"

text \<open>
  \<open>jwtAuth\<close>: the \<open>try\<close> block is the inner \<open>case\<close>, the \<open>catch\<close> block the outer one. An
  \<open>HTTPException\<close> is thrown again as it is; any other error is written to the console and
  replaced.
\<close>

definition jwtAuth :: "jose \<Rightarrow> int \<Rightarrow> JWTMiddlewareConfig \<Rightarrow> MiddlewareHandler" where
  "jwtAuth lib now config next c =
     (let token = extractToken c
      in if falsy token
         then (Inl (HTTPException 401 ''Authorization header is missing or invalid''), [])
         else
           (let jwtConfig = \<lparr>algorithm = algorithm config, secret = secret config,
                              publicKey = publicKey config, privateKey = None,
                              accessTokenExpiry = None, refreshTokenExpiry = None\<rparr>
            in case (case verifyToken lib now (the token) jwtConfig of
                       (Inl e, ev) \<Rightarrow> (Inl e, ev)
                     | (Inr payload, ev) \<Rightarrow>
                         if type payload \<noteq> Some (JStr ''access'')
                         then (Inl (HTTPException 401
                                      ''Invalid token type. Access token required.''), ev)
                         else (case next (c\<lparr>jwtPayload := Some payload\<rparr>) of
                                 (r, ev') \<Rightarrow> (r, ev @ ev'))) of
                 (Inl error, ev) \<Rightarrow>
                   if is_HTTPException error then (Inl error, ev)
                   else (Inl (HTTPException 401 ''Invalid or expired token''),
                         ev @ [ConsoleError ''JWT verification failed:'' error])
               | (Inr c', ev) \<Rightarrow> (Inr c', ev)))"

definition refreshTokenAuth :: "jose \<Rightarrow> int \<Rightarrow> JWTMiddlewareConfig \<Rightarrow> MiddlewareHandler" where
  "refreshTokenAuth lib now config next c =
     (let token = extractToken c
      in if falsy token
         then (Inl (HTTPException 401 ''Authorization header is missing or invalid''), [])
         else
           (let jwtConfig = \<lparr>algorithm = algorithm config, secret = secret config,
                              publicKey = publicKey config, privateKey = None,
                              accessTokenExpiry = None, refreshTokenExpiry = None\<rparr>
            in case (case verifyToken lib now (the token) jwtConfig of
                       (Inl e, ev) \<Rightarrow> (Inl e, ev)
                     | (Inr payload, ev) \<Rightarrow>
                         if type payload \<noteq> Some (JStr ''refresh'')
                         then (Inl (HTTPException 401
                                      ''Invalid token type. Refresh token required.''), ev)
                         else (case next (c\<lparr>jwtPayload := Some payload\<rparr>) of
                                 (r, ev') \<Rightarrow> (r, ev @ ev'))) of
                 (Inl error, ev) \<Rightarrow>
                   if is_HTTPException error then (Inl error, ev)
                   else (Inl (HTTPException 401 ''Invalid or expired refresh token''),
                         ev @ [ConsoleError ''Refresh token verification failed:'' error])
               | (Inr c', ev) \<Rightarrow> (Inr c', ev)))"

definition hs256Auth :: "jose \<Rightarrow> int \<Rightarrow> KeyGetter \<Rightarrow> MiddlewareHandler" where
  "hs256Auth lib now secretGetter next c =
     (let s = secretGetter c
      in jwtAuth lib now \<lparr>algorithm = HS256, secret = s, publicKey = None\<rparr> next c)"

definition rs256Auth :: "jose \<Rightarrow> int \<Rightarrow> KeyGetter \<Rightarrow> MiddlewareHandler" where
  "rs256Auth lib now publicKeyGetter next c =
     (let pk = publicKeyGetter c
      in jwtAuth lib now \<lparr>algorithm = RS256, secret = None, publicKey = pk\<rparr> next c)"

definition es256Auth :: "jose \<Rightarrow> int \<Rightarrow> KeyGetter \<Rightarrow> MiddlewareHandler" where
  "es256Auth lib now publicKeyGetter next c =
     (let pk = publicKeyGetter c
      in jwtAuth lib now \<lparr>algorithm = ES256, secret = None, publicKey = pk\<rparr> next c)"

definition hs256RefreshAuth :: "jose \<Rightarrow> int \<Rightarrow> KeyGetter \<Rightarrow> MiddlewareHandler" where
  "hs256RefreshAuth lib now secretGetter next c =
     (let s = secretGetter c
      in refreshTokenAuth lib now \<lparr>algorithm = HS256, secret = s, publicKey = None\<rparr> next c)"

definition rs256RefreshAuth :: "jose \<Rightarrow> int \<Rightarrow> KeyGetter \<Rightarrow> MiddlewareHandler" where
  "rs256RefreshAuth lib now publicKeyGetter next c =
     (let pk = publicKeyGetter c
      in refreshTokenAuth lib now \<lparr>algorithm = RS256, secret = None, publicKey = pk\<rparr> next c)"

definition es256RefreshAuth :: "jose \<Rightarrow> int \<Rightarrow> KeyGetter \<Rightarrow> MiddlewareHandler" where
  "es256RefreshAuth lib now publicKeyGetter next c =
     (let pk = publicKeyGetter c
      in refreshTokenAuth lib now \<lparr>algorithm = ES256, secret = None, publicKey = pk\<rparr> next c)"

section \<open>index.ts: the error handler\<close>

text \<open>
  \<open>app.onError\<close>: an error with a numeric \<open>status\<close> (an \<open>HTTPException\<close>) is answered with
  that status and its message; any other error with 500 and its message.
\<close>

definition onError :: "error \<Rightarrow> Response \<times> event list" where
  "onError err =
     (case err_status err of
        Some st \<Rightarrow>
          (\<lparr>res_status = st,
            res_body = JObj [(''error'', JStr (if st \<ge> 500 then ''Internal Server Error''
                                              else ''Request Error'')),
                             (''message'', JStr (err_message err))]\<rparr>,
           [ConsoleError ''HTTP Error:'' err])
      | None \<Rightarrow>
          (\<lparr>res_status = 500,
            res_body = JObj [(''error'', JStr ''Internal Server Error''),
                             (''message'', JStr (err_message err))]\<rparr>,
           [ConsoleError ''Error:'' err]))"

text \<open>
  The answer of the application to a request that is routed to a chain of handlers: the
  response the chain leaves in the context, or the error handler's response to what the
  first handler of the chain throws.
\<close>

definition respond :: "(Context \<Rightarrow> Context eff) \<Rightarrow> Context \<Rightarrow> Response \<times> event list" where
  "respond chain c =
     (case chain c of
        (Inl e, ev) \<Rightarrow> (case onError e of (r, ev') \<Rightarrow> (r, ev @ ev'))
      | (Inr c', ev) \<Rightarrow> (res c', ev))"

text \<open>
  hono runs the error handler at the handler that throws: the \<open>next\<close> it hands to a
  middleware runs the rest of the chain, answers an error of the rest with \<open>app.onError\<close>,
  stores that response in the context and returns normally. So a middleware of the
  application is always applied to \<open>caught rest\<close>, which never throws; an error of a route
  handler behind \<open>jwtAuth\<close> does not reach the \<open>catch\<close> block of \<open>jwtAuth\<close>. (The variables
  that the rest set before it threw are not kept here.)
\<close>

definition caught :: "(Context \<Rightarrow> Context eff) \<Rightarrow> Context \<Rightarrow> Context eff" where
  "caught rest c =
     (case rest c of
        (Inl e, ev) \<Rightarrow> (case onError e of (r, ev') \<Rightarrow> (Inr (c\<lparr>res := r\<rparr>), ev @ ev'))
      | (Inr c', ev) \<Rightarrow> (Inr c', ev))"

section \<open>middleware/request-logger.ts\<close>

text \<open>JavaScript's truthiness, for \<open>v || null\<close>.\<close>

fun truthy :: "jsval \<Rightarrow> bool" where
  "truthy JNull = False"
| "truthy (JBool b) = b"
| "truthy (JNum n) = (n \<noteq> NaN \<and> n \<noteq> Fin 0)"
| "truthy (JStr s) = (s \<noteq> [])"
| "truthy (JArr _) = True"
| "truthy (JObj _) = True"

definition or_null :: "string option \<Rightarrow> string option \<Rightarrow> string option" where
  "or_null a b = (if \<not> falsy a then a else if \<not> falsy b then b else None)"

definition starts_with :: "string \<Rightarrow> string \<Rightarrow> bool" where
  "starts_with s p = (take (length p) s = p)"

text \<open>
  \<open>path.match(/\/auth\/(hs256|rs256|es256)\//)\<close>: the leftmost occurrence, in upper case.
\<close>

fun extractAlgorithm :: "string \<Rightarrow> string option" where
  "extractAlgorithm [] = None"
| "extractAlgorithm (c # cs) =
     (if starts_with (c # cs) ''/auth/hs256/'' then Some ''HS256''
      else if starts_with (c # cs) ''/auth/rs256/'' then Some ''RS256''
      else if starts_with (c # cs) ''/auth/es256/'' then Some ''ES256''
      else extractAlgorithm cs)"

text \<open>
  The D1 service is outside the program: \<open>d1 db log\<close> is what running the insert of the row
  on \<open>db\<close> does, \<open>None\<close> when it succeeds and the error it throws otherwise. \<open>saveLog\<close>
  catches that error and writes it to the console.
\<close>

type_synonym D1 = "D1Database \<Rightarrow> RequestLog \<Rightarrow> error option"

definition saveLog :: "D1 \<Rightarrow> D1Database \<Rightarrow> RequestLog \<Rightarrow> unit eff" where
  "saveLog d1 db log_row =
     (case d1 db log_row of
        None \<Rightarrow> (Inr (), [D1Insert log_row])
      | Some error \<Rightarrow> (Inr (), [ConsoleError ''Failed to save request log:'' error]))"

text \<open>What \<open>requestLogger\<close> reads from the platform: a fresh UUID and the clock.\<close>

record Clock =
  randomUUID :: string
  startTime :: int
  isoString :: string
  endTime :: int

text \<open>
  \<open>requestLogger\<close>: the \<open>try\<close> and \<open>catch\<close> blocks compute the logged fields from the
  outcome of \<open>next\<close>, which is passed on unchanged (an error is thrown again); the
  \<open>finally\<close> block builds the row and hands the promise of \<open>saveLog\<close> to \<open>waitUntil\<close>,
  which never throws into the request.
\<close>

definition requestLogger :: "D1 \<Rightarrow> Clock \<Rightarrow> MiddlewareHandler" where
  "requestLogger d1 clk next c =
     (let rid = randomUUID clk;
          ipaddr = or_null (req_header c ''cf-connecting-ip'') (req_header c ''x-forwarded-for'');
          userAgent = or_null (req_header c ''user-agent'') None;
          alg = extractAlgorithm (req_path c)
      in case next (c\<lparr>requestId := Some rid\<rparr>) of
           (r, ev) \<Rightarrow>
             (let fields =
                    (case r of
                       Inr c' \<Rightarrow>
                         (res_status (res c'), None,
                          (case jwtPayload c' of
                             None \<Rightarrow> (None, None)
                           | Some payload \<Rightarrow>
                               (if sub payload = [] then None else Some (sub payload),
                                (case type payload of
                                   None \<Rightarrow> None
                                 | Some v \<Rightarrow> if truthy v then Some v else None))))
                     | Inl error \<Rightarrow>
                         ((case err_status error of None \<Rightarrow> 500 | Some st \<Rightarrow> st),
                          Some (err_message error), (None, None)));
                  log_row = \<lparr>request_id = rid, timestamp = isoString clk,
                         log_method = req_method c, path = req_path c,
                         status = fst fields, latency_ms = endTime clk - startTime clk,
                         user_id = fst (snd (snd fields)), log_algorithm = alg,
                         token_type = snd (snd (snd fields)), ip = ipaddr,
                         user_agent = userAgent, error_message = fst (snd fields)\<rparr>
              in (r, ev @ (case DB (env c) of
                             None \<Rightarrow> []
                           | Some db \<Rightarrow> snd (saveLog d1 db log_row)))))"

section \<open>routes/password.ts\<close>

text \<open>
  The platform under the password routes: PBKDF2 through \<open>crypto.subtle\<close> (import of the
  password, then \<open>deriveBits\<close> with SHA-256 and 256 bits), \<open>btoa\<close> and \<open>atob\<close>, and the
  conversion to a number that \<open>Math.max\<close> applies to an argument that is not one.
\<close>

record platform =
  deriveBits :: "jsval option \<Rightarrow> string \<Rightarrow> jsnum \<Rightarrow> error + string"
  btoa :: "string \<Rightarrow> string"
  atob :: "string \<Rightarrow> string"
  ToNumber :: "jsval \<Rightarrow> jsnum"

definition hashPassword :: "platform \<Rightarrow> jsval option \<Rightarrow> string \<Rightarrow> jsnum \<Rightarrow> string eff" where
  "hashPassword pf password salt_bytes n =
     (case deriveBits pf password salt_bytes n of
        Inl e \<Rightarrow> (Inl e, [DeriveBits n])
      | Inr derivedBits \<Rightarrow> (Inr (btoa pf derivedBits), [DeriveBits n]))"

definition verifyPassword ::
  "platform \<Rightarrow> jsval option \<Rightarrow> string \<Rightarrow> string \<Rightarrow> jsnum \<Rightarrow> bool eff" where
  "verifyPassword pf password salt_bytes storedHash n =
     (case hashPassword pf password salt_bytes n of
        (Inl e, ev) \<Rightarrow> (Inl e, ev)
      | (Inr computedHash, ev) \<Rightarrow> (Inr (computedHash = storedHash), ev))"

definition saltToBase64 :: "platform \<Rightarrow> string \<Rightarrow> string" where
  "saltToBase64 pf salt_bytes = btoa pf salt_bytes"

definition base64ToSalt :: "platform \<Rightarrow> string \<Rightarrow> string" where
  "base64ToSalt pf base64 = atob pf base64"

record StoredUser =
  stored_id :: string
  stored_email :: string
  passwordHash :: string
  salt :: string
  iterations :: jsnum

type_synonym userStore = "string \<rightharpoonup> StoredUser"

text \<open>
  \<open>parseInt(s, 10)\<close>: leading white space, an optional sign, then the longest run of
  decimal digits; \<open>NaN\<close> when there is no digit. A \<open>char\<close> is a code unit below 256; the
  white space that \<open>parseInt\<close> trims is, in that range, tab, line feed, vertical tab,
  form feed, carriage return, space and the no-break space U+00A0. The value is kept
  exact, where a double would round it or overflow to an infinity; both bounds treat them
  alike.
\<close>

definition is_space :: "char \<Rightarrow> bool" where
  "is_space ch = (of_char ch \<in> {9, 10, 11, 12, 13, 32, 160 :: nat})"

definition is_digit :: "char \<Rightarrow> bool" where
  "is_digit ch = (48 \<le> (of_char ch :: nat) \<and> (of_char ch :: nat) \<le> 57)"

definition digits_value :: "string \<Rightarrow> int" where
  "digits_value ds = foldl (\<lambda>acc ch. 10 * acc + (of_char ch - 48)) 0 ds"

definition parseInt :: "string \<Rightarrow> jsnum" where
  "parseInt s =
     (let t = dropWhile is_space s;
          negative = (t \<noteq> [] \<and> hd t = CHR ''-'');
          u = (if t \<noteq> [] \<and> (hd t = CHR ''-'' \<or> hd t = CHR ''+'') then tl t else t);
          ds = takeWhile is_digit u
      in if ds = [] then NaN
         else Fin (of_int (if negative then - digits_value ds else digits_value ds)))"

definition get_user :: "userStore \<Rightarrow> jsval option \<Rightarrow> StoredUser option" where
  "get_user store k = (case k of Some (JStr e) \<Rightarrow> store e | _ \<Rightarrow> None)"

definition auth_failed :: "(string \<times> jsval) list \<Rightarrow> Response" where
  "auth_failed extra =
     \<lparr>res_status = 401,
      res_body = JObj ([(''error'', JStr ''Authentication failed''),
                        (''message'', JStr ''Invalid email or password'')] @ extra)\<rparr>"

text \<open>
  \<open>POST /login\<close>. The two salts are the values that \<open>generateSalt\<close> draws, \<open>elapsed\<close> the
  measured processing time. The result is the outcome with its events and the user store
  after the request.
\<close>

definition login ::
  "platform \<Rightarrow> string \<Rightarrow> string \<Rightarrow> int \<Rightarrow> userStore \<Rightarrow> Context \<Rightarrow> Response eff \<times> userStore" where
  "login pf salt1 dummySalt elapsed store c =
     (let body = req_json c;
          email_in = body ''email'';
          password = body ''password'';
          iterationsParam = req_query c ''iterations'';
          n = (if falsy iterationsParam then Fin 100000 else parseInt (the iterationsParam));
          safeIterations = Math_min (Math_max n (Fin 1000)) (Fin 100000);
          testEmail = (if falsy (TEST_USER_EMAIL (env c)) then ''test@example.com''
                       else the (TEST_USER_EMAIL (env c)));
          testPassword = (if falsy (TEST_USER_PASSWORD (env c)) then ''password123''
                          else the (TEST_USER_PASSWORD (env c)))
      in case (if get_user store email_in = None \<and> email_in = Some (JStr testEmail)
               then (case hashPassword pf (Some (JStr testPassword)) salt1 safeIterations of
                       (Inl e, ev) \<Rightarrow> (Inl e, ev)
                     | (Inr h, ev) \<Rightarrow>
                         (let user = \<lparr>stored_id = ''user-1'', stored_email = testEmail,
                                      passwordHash = h, salt = saltToBase64 pf salt1,
                                      iterations = safeIterations\<rparr>
                          in (Inr (Some user, store(testEmail \<mapsto> user)), ev)))
               else (Inr (get_user store email_in, store), [])) of
           (Inl e, ev) \<Rightarrow> ((Inl e, ev), store)
         | (Inr (None, store'), ev) \<Rightarrow>
             (case hashPassword pf password dummySalt safeIterations of
                (Inl e, ev') \<Rightarrow> ((Inl e, ev @ ev'), store')
              | (Inr _, ev') \<Rightarrow> ((Inr (auth_failed []), ev @ ev'), store'))
         | (Inr (Some user, store'), ev) \<Rightarrow>
             (case verifyPassword pf password (base64ToSalt pf (salt user))
                     (passwordHash user) (iterations user) of
                (Inl e, ev') \<Rightarrow> ((Inl e, ev @ ev'), store')
              | (Inr isValid, ev') \<Rightarrow>
                  if \<not> isValid
                  then ((Inr (auth_failed [(''processingTimeMs'', JNum (Fin (of_int elapsed)))]),
                         ev @ ev'), store')
                  else ((Inr \<lparr>res_status = 200,
                              res_body = JObj
                                [(''success'', JBool True),
                                 (''message'', JStr ''Authentication successful''),
                                 (''user'', JObj [(''id'', JStr (stored_id user)),
                                                  (''email'', JStr (stored_email user))]),
                                 (''meta'', JObj
                                    [(''algorithm'', JStr ''PBKDF2-SHA256''),
                                     (''iterations'', JNum (iterations user)),
                                     (''processingTimeMs'', JNum (Fin (of_int elapsed)))])]\<rparr>,
                         ev @ ev'), store')))"

text \<open>
  \<open>POST /hash\<close>: \<open>body.iterations || 100000\<close>, then the same two bounds. A value that is
  not a number is converted by \<open>Math.max\<close>.
\<close>

definition number_of :: "platform \<Rightarrow> jsval \<Rightarrow> jsnum" where
  "number_of pf v = (case v of JNum n \<Rightarrow> n | _ \<Rightarrow> ToNumber pf v)"

definition hash :: "platform \<Rightarrow> string \<Rightarrow> int \<Rightarrow> Context \<Rightarrow> Response eff" where
  "hash pf salt1 elapsed c =
     (let body = req_json c;
          password = (case body ''password'' of
                        None \<Rightarrow> JStr ''test-password''
                      | Some v \<Rightarrow> if truthy v then v else JStr ''test-password'');
          requested = (case body ''iterations'' of
                         None \<Rightarrow> Fin 100000
                       | Some v \<Rightarrow> if truthy v then number_of pf v else Fin 100000);
          n = Math_min (Math_max requested (Fin 1000)) (Fin 100000)
      in case hashPassword pf (Some password) salt1 n of
           (Inl e, ev) \<Rightarrow> (Inl e, ev)
         | (Inr h, ev) \<Rightarrow>
             (Inr \<lparr>res_status = 200,
                   res_body = JObj
                     [(''success'', JBool True),
                      (''algorithm'', JStr ''PBKDF2-SHA256''),
                      (''iterations'', JNum n),
                      (''processingTimeMs'', JNum (Fin (of_int elapsed))),
                      (''hashLength'', JNum (Fin (of_nat (length h)))),
                      (''saltBase64'', JStr (saltToBase64 pf salt1))]\<rparr>, ev))"

text \<open>
  A sequence of requests to the two routes, from a given user store: the events of all
  of them, in order. The store starts empty with the process.
\<close>

datatype password_request =
    Login string string int Context
  | Hash string int Context

fun serve :: "platform \<Rightarrow> userStore \<Rightarrow> password_request list \<Rightarrow> event list" where
  "serve pf store [] = []"
| "serve pf store (Login salt1 dummySalt elapsed c # rs) =
     (case login pf salt1 dummySalt elapsed store c of
        ((r, ev), store') \<Rightarrow> ev @ serve pf store' rs)"
| "serve pf store (Hash salt1 elapsed c # rs) =
     (case hash pf salt1 elapsed c of (r, ev) \<Rightarrow> ev @ serve pf store rs)"

section \<open>Notions for the statements\<close>

text \<open>
  The bounds of the iteration count, and the requests that supply a number or nothing:
  an \<open>iterations\<close> parameter that \<open>parseInt\<close> reads, a body value whose conversion is not
  \<open>NaN\<close>.
\<close>

definition within_bounds :: "jsnum \<Rightarrow> bool" where
  "within_bounds n = (num_le (Fin 1000) n \<and> num_le n (Fin 100000))"

fun numeric_request :: "platform \<Rightarrow> password_request \<Rightarrow> bool" where
  "numeric_request pf (Login salt1 dummySalt elapsed c) =
     (falsy (req_query c ''iterations'') \<or> parseInt (the (req_query c ''iterations'')) \<noteq> NaN)"
| "numeric_request pf (Hash salt1 elapsed c) =
     (case req_json c ''iterations'' of
        None \<Rightarrow> True
      | Some v \<Rightarrow> \<not> truthy v \<or> number_of pf v \<noteq> NaN)"

text \<open>
  The invariant of the user store: every stored count is within the bounds, or, when not
  \<open>strict\<close>, is \<open>NaN\<close>.
\<close>

definition count_ok :: "bool \<Rightarrow> jsnum \<Rightarrow> bool" where
  "count_ok strict n = (within_bounds n \<or> (\<not> strict \<and> n = NaN))"

definition store_ok :: "bool \<Rightarrow> userStore \<Rightarrow> bool" where
  "store_ok strict store = (\<forall>u \<in> ran store. count_ok strict (iterations u))"

text \<open>
  The configuration that \<open>jwtAuth\<close> and \<open>refreshTokenAuth\<close> hand to \<open>verifyToken\<close>, named
  for the statements below.
\<close>

definition jwtConfig_of :: "JWTMiddlewareConfig \<Rightarrow> JWTConfig" where
  "jwtConfig_of config =
     \<lparr>algorithm = algorithm config, secret = secret config, publicKey = publicKey config,
      privateKey = None, accessTokenExpiry = None, refreshTokenExpiry = None\<rparr>"

text \<open>
  The access-token middlewares (\<open>jwtAuth\<close> and its three wrappers) and the refresh-token
  middlewares, each with the configuration it verifies under for the request \<open>c\<close>.
\<close>

definition access_middlewares ::
  "jose \<Rightarrow> int \<Rightarrow> Context \<Rightarrow> JWTMiddlewareConfig \<Rightarrow> KeyGetter
     \<Rightarrow> (JWTMiddlewareConfig \<times> MiddlewareHandler) list" where
  "access_middlewares lib now c config getter =
     [(config, jwtAuth lib now config),
      (\<lparr>algorithm = HS256, secret = getter c, publicKey = None\<rparr>, hs256Auth lib now getter),
      (\<lparr>algorithm = RS256, secret = None, publicKey = getter c\<rparr>, rs256Auth lib now getter),
      (\<lparr>algorithm = ES256, secret = None, publicKey = getter c\<rparr>, es256Auth lib now getter)]"

definition refresh_middlewares ::
  "jose \<Rightarrow> int \<Rightarrow> Context \<Rightarrow> JWTMiddlewareConfig \<Rightarrow> KeyGetter
     \<Rightarrow> (JWTMiddlewareConfig \<times> MiddlewareHandler) list" where
  "refresh_middlewares lib now c config getter =
     [(config, refreshTokenAuth lib now config),
      (\<lparr>algorithm = HS256, secret = getter c, publicKey = None\<rparr>,
       hs256RefreshAuth lib now getter),
      (\<lparr>algorithm = RS256, secret = None, publicKey = getter c\<rparr>,
       rs256RefreshAuth lib now getter),
      (\<lparr>algorithm = ES256, secret = None, publicKey = getter c\<rparr>,
       es256RefreshAuth lib now getter)]"

text \<open>The body that \<open>app.onError\<close> sends for a client error with the given message.\<close>

definition request_error :: "nat \<Rightarrow> string \<Rightarrow> Response" where
  "request_error st m =
     \<lparr>res_status = st,
      res_body = JObj [(''error'', JStr ''Request Error''), (''message'', JStr m)]\<rparr>"

section \<open>The jose package, from its contract\<close>

text \<open>
  A compact token after parsing: the algorithm its header declares, its claims and its
  signature bytes.
\<close>

record jws =
  jws_alg :: string
  jws_payload :: TokenPayload
  jws_signature :: string

text \<open>
  The byte-level and cryptographic primitives under jose, left open: parsing and writing
  the three base64url segments, the signing and checking primitive of each algorithm (over
  the header and the claims), the time-span reader (\<open>'15m'\<close>, \<open>'7d'\<close>), base64 decoding and
  the PEM importers.
\<close>

record primitives =
  parse_compact :: "string \<Rightarrow> jws option"
  serialize :: "jws \<Rightarrow> string"
  sign_prim :: "Algorithm \<Rightarrow> key \<Rightarrow> string \<times> TokenPayload \<Rightarrow> jose_error + string"
  verify_prim :: "Algorithm \<Rightarrow> key \<Rightarrow> string \<times> TokenPayload \<Rightarrow> string \<Rightarrow> bool"
  secs :: "string \<Rightarrow> int option"
  decode_base64 :: "string \<Rightarrow> string"
  pkcs8 :: "string \<Rightarrow> Algorithm \<Rightarrow> jose_error + key"
  spki :: "string \<Rightarrow> Algorithm \<Rightarrow> jose_error + key"

text \<open>
  Modelled from the spec: \<open>jose.jwtVerify\<close>, which is a dependency and not in the sources.
  Section 4.2, Verify: parse the three segments and reject a malformed token; take the
  expected algorithm from the caller's list, never from the token; fail unless the header
  declares that algorithm; check the signature with the primitive of the expected
  algorithm and the given key; fail if \<open>expiresAt\<close> is not strictly in the future; return
  the claims. A token without \<open>exp\<close> does not expire.
\<close>

definition spec_jwtVerify ::
  "primitives \<Rightarrow> string \<Rightarrow> key \<Rightarrow> Algorithm list \<Rightarrow> int \<Rightarrow> jose_error + TokenPayload" where
  "spec_jwtVerify prims token k algorithms now =
     (case parse_compact prims token of
        None \<Rightarrow> Inl (JoseErr ''ERR_JWS_INVALID'' ''Invalid Compact JWS'')
      | Some j \<Rightarrow>
          (case find (\<lambda>a. alg_name a = jws_alg j) algorithms of
             None \<Rightarrow> Inl (JoseErr ''ERR_JOSE_ALG_NOT_ALLOWED''
                            ''alg (Algorithm) Header Parameter value not allowed'')
           | Some a \<Rightarrow>
               if \<not> verify_prim prims a k (jws_alg j, jws_payload j) (jws_signature j)
               then Inl (JoseErr ''ERR_JWS_SIGNATURE_VERIFICATION_FAILED''
                           ''signature verification failed'')
               else (case exp_claim (jws_payload j) of
                       None \<Rightarrow> Inr (jws_payload j)
                     | Some e \<Rightarrow>
                         if e \<le> now
                         then Inl (JoseErr ''ERR_JWT_EXPIRED'' ''exp claim timestamp check failed'')
                         else Inr (jws_payload j))))"

text \<open>
  Modelled from the spec: \<open>jose.SignJWT\<close> as the generators drive it. Section 4.2, Sign:
  stamp \<open>issuedAt\<close> = now and \<open>expiresAt\<close> = now + expiry duration, build the header that
  declares exactly the signing algorithm, sign header and claims with the primitive of
  that algorithm, and join the three segments.
\<close>

definition spec_signJWT ::
  "primitives \<Rightarrow> TokenPayload \<Rightarrow> Algorithm \<Rightarrow> string \<Rightarrow> key \<Rightarrow> int \<Rightarrow> jose_error + string" where
  "spec_signJWT prims payload alg expiry k now =
     (case secs prims expiry of
        None \<Rightarrow> Inl (JoseErr ''TypeError'' ''Invalid time period format'')
      | Some d \<Rightarrow>
          (let claims = payload\<lparr>iat := Some now, exp_claim := Some (now + d)\<rparr>
           in case sign_prim prims alg k (alg_name alg, claims) of
                Inl e \<Rightarrow> Inl e
              | Inr sg \<Rightarrow>
                  Inr (serialize prims
                         \<lparr>jws_alg = alg_name alg, jws_payload = claims, jws_signature = sg\<rparr>)))"

definition spec_jose :: "primitives \<Rightarrow> jose" where
  "spec_jose prims =
     \<lparr>base64_utf8 = decode_base64 prims,
      importPKCS8 = pkcs8 prims,
      importSPKI = spki prims,
      jwtVerify = spec_jwtVerify prims,
      signJWT = spec_signJWT prims\<rparr>"

text \<open>
  A small instance of the primitives for evaluating the definitions: two token strings
  are parsed, every time span is read as 900 seconds, signatures are the fixed bytes
  \<open>sig\<close>, and the checking primitive accepts whatever carries them, under any algorithm
  and any key (the worst case for algorithm confusion).
\<close>

definition demo_claims :: "string \<Rightarrow> TokenPayload" where
  "demo_claims ty =
     \<lparr>sub = ''user-1'', email = ''test@example.com'', iat = Some 1000,
      exp_claim = Some 1900, type = Some (JStr ty)\<rparr>"

definition demo_jws :: "string \<Rightarrow> string \<Rightarrow> jws" where
  "demo_jws a ty = \<lparr>jws_alg = a, jws_payload = demo_claims ty, jws_signature = ''sig''\<rparr>"

definition demo_prims :: "string \<Rightarrow> primitives" where
  "demo_prims a =
     \<lparr>parse_compact = (\<lambda>s. if s = ''h.access.s'' then Some (demo_jws a ''access'')
                            else if s = ''h.refresh.s'' then Some (demo_jws a ''refresh'')
                            else None),
      serialize = (\<lambda>j. if type (jws_payload j) = Some (JStr ''access'')
                        then ''h.access.s'' else ''h.refresh.s''),
      sign_prim = (\<lambda>a k m. Inr ''sig''),
      verify_prim = (\<lambda>a k m s. s = ''sig''),
      secs = (\<lambda>s. Some 900),
      decode_base64 = (\<lambda>s. s),
      pkcs8 = (\<lambda>pem a. Inr (CryptoKey pem)),
      spki = (\<lambda>pem a. Inr (CryptoKey pem))\<rparr>"

definition demo_config :: "Algorithm \<Rightarrow> JWTConfig" where
  "demo_config a =
     \<lparr>algorithm = a, secret = Some ''s3cret'', publicKey = Some ''PUB'',
      privateKey = Some ''PRIV'', accessTokenExpiry = None, refreshTokenExpiry = None\<rparr>"

definition demo_middleware_config :: "Algorithm \<Rightarrow> JWTMiddlewareConfig" where
  "demo_middleware_config a =
     \<lparr>algorithm = a, secret = Some ''s3cret'', publicKey = Some ''PUB''\<rparr>"

definition demo_env :: "string option \<Rightarrow> Bindings" where
  "demo_env s =
     \<lparr>JWT_HS256_SECRET = s, JWT_RS256_PRIVATE_KEY = Some ''PRIV'',
      JWT_RS256_PUBLIC_KEY = Some ''PUB'', JWT_ES256_PRIVATE_KEY = Some ''PRIV'',
      JWT_ES256_PUBLIC_KEY = Some ''PUB'', TEST_USER_EMAIL = Some ''test@example.com'',
      TEST_USER_PASSWORD = Some ''password123'', DB = Some (D1Database ''jwt-auth-logs'')\<rparr>"

definition unconfigured_env :: Bindings where
  "unconfigured_env =
     \<lparr>JWT_HS256_SECRET = None, JWT_RS256_PRIVATE_KEY = None, JWT_RS256_PUBLIC_KEY = None,
      JWT_ES256_PRIVATE_KEY = None, JWT_ES256_PUBLIC_KEY = None, TEST_USER_EMAIL = None,
      TEST_USER_PASSWORD = None, DB = None\<rparr>"

definition demo_context :: "string option \<Rightarrow> Bindings \<Rightarrow> Context" where
  "demo_context authorization e =
     \<lparr>req_method = ''GET'', req_path = ''/auth/hs256/protected'',
      req_header = (\<lambda>n. if n = ''Authorization'' then authorization else None),
      req_query = (\<lambda>n. None), req_json = Map.empty, env = e, requestId = None, jwtPayload = None,
      res = \<lparr>res_status = 404, res_body = JNull\<rparr>\<rparr>"

text \<open>The key getters that the route files pass to the middleware wrappers.\<close>

definition hs256_secret :: KeyGetter where
  "hs256_secret c = JWT_HS256_SECRET (env c)"

definition rs256_public_key :: KeyGetter where
  "rs256_public_key c = JWT_RS256_PUBLIC_KEY (env c)"

definition es256_public_key :: KeyGetter where
  "es256_public_key c = JWT_ES256_PUBLIC_KEY (env c)"

definition d1_failing :: D1 where
  "d1_failing db log_row = Some (Error ''D1_ERROR: no such table: request_logs'')"

definition d1_working :: D1 where
  "d1_working db log_row = None"

definition demo_clock :: Clock where
  "demo_clock =
     \<lparr>randomUUID = ''6f9619ff-8b86-4011-b42d-00c04fc964ff'', startTime = 1000000,
      isoString = ''1970-01-01T00:16:40.000Z'', endTime = 1000003\<rparr>"

text \<open>A platform whose PBKDF2 accepts every count, and three requests to the password routes.\<close>

definition demo_platform :: platform where
  "demo_platform =
     \<lparr>deriveBits = (\<lambda>password salt_bytes n. Inr ''0123456789abcdef0123456789abcdef''),
      btoa = (\<lambda>s. s), atob = (\<lambda>s. s), ToNumber = (\<lambda>v. NaN)\<rparr>"

definition password_context ::
  "string option \<Rightarrow> (string \<times> jsval) list \<Rightarrow> Context" where
  "password_context iterationsParam body =
     \<lparr>req_method = ''POST'', req_path = ''/auth/password/login'',
      req_header = (\<lambda>n. None),
      req_query = (\<lambda>n. if n = ''iterations'' then iterationsParam else None),
      req_json = map_of body, env = unconfigured_env, requestId = None, jwtPayload = None,
      res = \<lparr>res_status = 404, res_body = JNull\<rparr>\<rparr>"

definition demo_requests :: "password_request list" where
  "demo_requests =
     [Login ''salt-1'' ''salt-2'' 3
        (password_context (Some ''600000'')
           [(''email'', JStr ''test@example.com''), (''password'', JStr ''password123'')]),
      Login ''salt-3'' ''salt-4'' 3
        (password_context (Some ''1'')
           [(''email'', JStr ''test@example.com''), (''password'', JStr ''password123'')]),
      Hash ''salt-5'' 3
        (password_context None [(''iterations'', JNum (Fin 5))])]"

text \<open>A login with an \<open>iterations\<close> parameter that is not a number.\<close>

definition abc_requests :: "password_request list" where
  "abc_requests =
     [Login ''salt-1'' ''salt-2'' 3
        (password_context (Some ''abc'')
           [(''email'', JStr ''test@example.com''), (''password'', JStr ''password123'')])]"

text \<open>A route handler that throws a plain error.\<close>

definition throwing_handler :: "Context \<Rightarrow> Context eff" where
  "throwing_handler c = (Inl (Error ''handler failed''), [])"

definition demo_next :: "Context \<Rightarrow> Context eff" where
  "demo_next c = (Inr (c\<lparr>res := \<lparr>res_status = 200, res_body = JObj []\<rparr>\<rparr>), [])"

text \<open>
  A jose whose \<open>jwtVerify\<close> accepts every token and returns the given claims: for
  evaluating the middleware on a verified payload of any shape.
\<close>

definition accepting_jose :: "TokenPayload \<Rightarrow> jose" where
  "accepting_jose p =
     \<lparr>base64_utf8 = (\<lambda>s. s),
      importPKCS8 = (\<lambda>pem a. Inr (CryptoKey pem)),
      importSPKI = (\<lambda>pem a. Inr (CryptoKey pem)),
      jwtVerify = (\<lambda>t k algs now. Inr p),
      signJWT = (\<lambda>p a e k now. Inr ''h.p.s'')\<rparr>"

definition untyped_claims :: TokenPayload where
  "untyped_claims =
     \<lparr>sub = ''user-1'', email = ''test@example.com'', iat = Some 1000,
      exp_claim = Some 1900, type = None\<rparr>"

definition missing_key :: "JWTMiddlewareConfig \<Rightarrow> bool" where
  "missing_key cfg = (if algorithm cfg = HS256 then falsy (secret cfg) else falsy (publicKey cfg))"

definition missing_key_error :: "JWTMiddlewareConfig \<Rightarrow> error" where
  "missing_key_error cfg =
     Error (if algorithm cfg = HS256 then ''Secret is required for HS256''
            else ''Public key is required for RS256/ES256'')"

section \<open>Verification against the jose contract\<close>

lemma verifyToken_Inr_D:
  assumes "fst (verifyToken lib now t config) = Inr p"
  shows "\<exists>k. jwtVerify lib t k [algorithm config] now = Inr p"
  using assms
  by (auto simp: verifyToken_def lift_jose_def Let_def split: if_splits sum.splits)

lemma spec_jwtVerify_Inr_D:
  assumes "spec_jwtVerify prims t k algs now = Inr p"
  shows "\<exists>j a. parse_compact prims t = Some j \<and> jws_payload j = p
           \<and> find (\<lambda>a. alg_name a = jws_alg j) algs = Some a
           \<and> verify_prim prims a k (jws_alg j, p) (jws_signature j)
           \<and> (\<forall>e. exp_claim p = Some e \<longrightarrow> now < e)"
  using assms
  by (auto simp: spec_jwtVerify_def split: option.splits if_splits)

lemma alg_name_inj: "alg_name a = alg_name b \<Longrightarrow> a = b"
  by (cases a; cases b) simp_all

text \<open>
  C1 (algorithm pinning). A token whose header declares algorithm \<open>A\<close> fails
  \<open>verifyToken\<close> under every configuration for another algorithm \<open>B\<close>, whatever keys the
  configuration holds and whatever the signature primitives accept: the expected
  algorithm is the one of the configuration. In particular a token signed with HMAC
  under the bytes of a public key is refused by a verifier configured for RS256 or ES256.
\<close>

theorem algorithm_pinning:
  assumes "\<And>j. parse_compact prims t = Some j \<Longrightarrow> jws_alg j = alg_name A"
    and "A \<noteq> B" and "algorithm config = B"
  shows "isl (fst (verifyToken (spec_jose prims) now t config))"
proof (rule ccontr)
  assume "\<not> isl (fst (verifyToken (spec_jose prims) now t config))"
  then obtain p where "fst (verifyToken (spec_jose prims) now t config) = Inr p"
    by (cases "fst (verifyToken (spec_jose prims) now t config)") auto
  from verifyToken_Inr_D[OF this] obtain k where
    "spec_jwtVerify prims t k [B] now = Inr p"
    by (auto simp: spec_jose_def assms(3))
  from spec_jwtVerify_Inr_D[OF this] obtain j a where
    j: "parse_compact prims t = Some j" and f: "find (\<lambda>a. alg_name a = jws_alg j) [B] = Some a"
    by blast
  from f have "alg_name B = jws_alg j" by (auto split: if_splits)
  with assms(1)[OF j] have "A = B" by (simp add: alg_name_inj)
  with assms(2) show False by simp
qed

text \<open>
  The demo token declares HS256 and carries a signature that the demo primitive accepts
  under any key; the RS256 verifier refuses it.
\<close>

theorem algorithm_pinning_witness:
  "isl (fst (verifyToken (spec_jose (demo_prims ''HS256'')) 1000 ''h.access.s''
               (demo_config RS256)))"
  using algorithm_pinning [of "demo_prims ''HS256''" "''h.access.s''" HS256 RS256
      "demo_config RS256" 1000]
  by (simp add: demo_prims_def demo_jws_def demo_config_def split: if_splits)

text \<open>
  C3 (expiry). A token whose \<open>exp\<close> claim is at or before the time of verification fails
  \<open>verifyToken\<close>, for every configuration (so for all three algorithms) and whether or not
  its signature is valid.
\<close>

theorem expired_rejected:
  assumes "\<And>j. parse_compact prims t = Some j
             \<Longrightarrow> \<exists>e. exp_claim (jws_payload j) = Some e \<and> e \<le> now"
  shows "isl (fst (verifyToken (spec_jose prims) now t config))"
proof (rule ccontr)
  assume "\<not> isl (fst (verifyToken (spec_jose prims) now t config))"
  then obtain p where "fst (verifyToken (spec_jose prims) now t config) = Inr p"
    by (cases "fst (verifyToken (spec_jose prims) now t config)") auto
  from verifyToken_Inr_D[OF this] obtain k where
    "spec_jwtVerify prims t k [algorithm config] now = Inr p"
    by (auto simp: spec_jose_def)
  from spec_jwtVerify_Inr_D[OF this] obtain j where
    j: "parse_compact prims t = Some j" and p: "jws_payload j = p"
    and e: "\<forall>e. exp_claim p = Some e \<longrightarrow> now < e"
    by blast
  from assms[OF j] p e show False by auto
qed

text \<open>The demo token expires at 1900; at 1900 it is refused, although its signature holds.\<close>

theorem expired_rejected_witness:
  "isl (fst (verifyToken (spec_jose (demo_prims ''HS256'')) 1900 ''h.access.s''
               (demo_config HS256)))"
  using expired_rejected [of "demo_prims ''HS256''" "''h.access.s''" 1900 "demo_config HS256"]
  by (simp add: demo_prims_def demo_jws_def demo_claims_def split: if_splits)

text \<open>
  C4 (round trip). For each algorithm and key material valid for it (the secret is set,
  or both keys are set, import, and check each other's signatures), a token produced by
  \<open>generateAccessToken\<close> or \<open>generateRefreshToken\<close> at time \<open>t0\<close> verifies at every time
  \<open>t1\<close> before its expiry under the same configuration, and the claims returned carry the
  caller's \<open>sub\<close> and \<open>email\<close>, the type \<open>access\<close> (resp. \<open>refresh\<close>), \<open>iat = t0\<close> and
  \<open>exp = t0 + duration\<close>.
\<close>

theorem round_trip:
  assumes kind: "(gen, ty, expiry) = (generateAccessToken, ''access'',
                     (case accessTokenExpiry config of None \<Rightarrow> ''15m'' | Some e \<Rightarrow> e))
               \<or> (gen, ty, expiry) = (generateRefreshToken, ''refresh'',
                     (case refreshTokenExpiry config of None \<Rightarrow> ''7d'' | Some e \<Rightarrow> e))"
    and keys: "if algorithm config = HS256
               then \<not> falsy (secret config) \<and> sk = getHS256Key (the (secret config)) \<and> vk = sk
               else \<not> falsy (privateKey config) \<and> \<not> falsy (publicKey config)
                    \<and> pkcs8 prims (decode_base64 prims (the (privateKey config))) (algorithm config) = Inr sk
                    \<and> spki prims (decode_base64 prims (the (publicKey config))) (algorithm config) = Inr vk"
    and dur: "secs prims expiry = Some d"
    and claims: "claims = \<lparr>sub = s, email = m, iat = Some t0, exp_claim = Some (t0 + d),
                           type = Some (JStr ty)\<rparr>"
    and sign: "sign_prim prims (algorithm config) sk (alg_name (algorithm config), claims) = Inr sg"
    and pair: "verify_prim prims (algorithm config) vk (alg_name (algorithm config), claims) sg"
    and codec: "parse_compact prims
                  (serialize prims \<lparr>jws_alg = alg_name (algorithm config), jws_payload = claims,
                                     jws_signature = sg\<rparr>)
                = Some \<lparr>jws_alg = alg_name (algorithm config), jws_payload = claims,
                        jws_signature = sg\<rparr>"
    and window: "t1 < t0 + d"
  shows "\<exists>tok. fst (gen (spec_jose prims) t0 (s, m) config) = Inr tok
             \<and> fst (verifyToken (spec_jose prims) t1 tok config) = Inr claims
             \<and> sub claims = s \<and> email claims = m \<and> type claims = Some (JStr ty)
             \<and> iat claims = Some t0 \<and> exp_claim claims = Some (t0 + d)"
proof -
  let ?A = "algorithm config"
  let ?j = "\<lparr>jws_alg = alg_name ?A, jws_payload = claims, jws_signature = sg\<rparr>"
  let ?tok = "serialize prims ?j"
  let ?tp = "\<lparr>sub = s, email = m, iat = None, exp_claim = None, type = Some (JStr ty)\<rparr>"
  have sgn: "spec_signJWT prims ?tp ?A expiry sk t0 = Inr ?tok"
    using dur sign claims by (simp add: spec_signJWT_def Let_def)
  have ver: "spec_jwtVerify prims ?tok vk [?A] t1 = Inr claims"
    using codec pair window claims by (simp add: spec_jwtVerify_def)
  have g: "fst (gen (spec_jose prims) t0 (s, m) config) = Inr ?tok"
  proof (cases "?A = HS256")
    case True
    with keys sgn kind show ?thesis
      by (auto simp: generateAccessToken_def generateRefreshToken_def spec_jose_def
          lift_jose_def Let_def)
  next
    case False
    with keys sgn kind show ?thesis
      by (auto simp: generateAccessToken_def generateRefreshToken_def spec_jose_def
          lift_jose_def Let_def importPrivateKey_def decodeBase64Key_def)
  qed
  have v: "fst (verifyToken (spec_jose prims) t1 ?tok config) = Inr claims"
  proof (cases "?A = HS256")
    case True
    with keys ver show ?thesis
      by (auto simp: verifyToken_def spec_jose_def lift_jose_def Let_def)
  next
    case False
    with keys ver show ?thesis
      by (auto simp: verifyToken_def spec_jose_def lift_jose_def Let_def
          importPublicKey_def decodeBase64Key_def)
  qed
  from g v claims show ?thesis by simp
qed


text \<open>An HS256 access token and an ES256 refresh token, issued at 1000, verified at 1899.\<close>

theorem round_trip_witness:
  "fst (generateAccessToken (spec_jose (demo_prims ''HS256'')) 1000
          (''user-1'', ''test@example.com'') (demo_config HS256)) = Inr ''h.access.s''
   \<and> fst (verifyToken (spec_jose (demo_prims ''HS256'')) 1899 ''h.access.s''
            (demo_config HS256)) = Inr (demo_claims ''access'')
   \<and> fst (generateRefreshToken (spec_jose (demo_prims ''ES256'')) 1000
            (''user-1'', ''test@example.com'') (demo_config ES256)) = Inr ''h.refresh.s''
   \<and> fst (verifyToken (spec_jose (demo_prims ''ES256'')) 1899 ''h.refresh.s''
            (demo_config ES256)) = Inr (demo_claims ''refresh'')"
proof -
  have a: "fst (generateAccessToken (spec_jose (demo_prims ''HS256'')) 1000
                  (''user-1'', ''test@example.com'') (demo_config HS256)) = Inr ''h.access.s''"
    by (simp add: generateAccessToken_def spec_jose_def spec_signJWT_def lift_jose_def
        demo_prims_def demo_config_def getHS256Key_def)
  have r: "fst (generateRefreshToken (spec_jose (demo_prims ''ES256'')) 1000
                  (''user-1'', ''test@example.com'') (demo_config ES256)) = Inr ''h.refresh.s''"
    by (simp add: generateRefreshToken_def spec_jose_def spec_signJWT_def lift_jose_def
        demo_prims_def demo_config_def importPrivateKey_def decodeBase64Key_def)
  from a round_trip [of generateAccessToken "''access''" "''15m''" "demo_config HS256"
        "Uint8Array ''s3cret''" "Uint8Array ''s3cret''" "demo_prims ''HS256''" 900
        "demo_claims ''access''" "''user-1''" "''test@example.com''" 1000 "''sig''" 1899]
  have "fst (verifyToken (spec_jose (demo_prims ''HS256'')) 1899 ''h.access.s''
               (demo_config HS256)) = Inr (demo_claims ''access'')"
    by (simp add: demo_prims_def demo_jws_def demo_claims_def demo_config_def getHS256Key_def)
  moreover
  from r round_trip [of generateRefreshToken "''refresh''" "''7d''" "demo_config ES256"
        "CryptoKey ''PRIV''" "CryptoKey ''PUB''" "demo_prims ''ES256''" 900
        "demo_claims ''refresh''" "''user-1''" "''test@example.com''" 1000 "''sig''" 1899]
  have "fst (verifyToken (spec_jose (demo_prims ''ES256'')) 1899 ''h.refresh.s''
               (demo_config ES256)) = Inr (demo_claims ''refresh'')"
    by (simp add: demo_prims_def demo_jws_def demo_claims_def demo_config_def)
  ultimately show ?thesis using a r by simp
qed

section \<open>The middleware\<close>

lemma verifyToken_not_HTTPException:
  "fst (verifyToken lib now t config) = Inl e \<Longrightarrow> \<not> is_HTTPException e"
  by (auto simp: verifyToken_def lift_jose_def Let_def split: if_splits sum.splits)

lemma jwtAuth_no_token:
  "falsy (extractToken c) \<Longrightarrow>
   jwtAuth lib now config next c
     = (Inl (HTTPException 401 ''Authorization header is missing or invalid''), [])"
  by (simp add: jwtAuth_def Let_def)

lemma refreshTokenAuth_no_token:
  "falsy (extractToken c) \<Longrightarrow>
   refreshTokenAuth lib now config next c
     = (Inl (HTTPException 401 ''Authorization header is missing or invalid''), [])"
  by (simp add: refreshTokenAuth_def Let_def)

lemma jwtAuth_verify_fails:
  assumes "extractToken c = Some t" "t \<noteq> []"
    and "verifyToken lib now t (jwtConfig_of config) = (Inl e, ev)"
  shows "jwtAuth lib now config next c
           = (Inl (HTTPException 401 ''Invalid or expired token''),
              ev @ [ConsoleError ''JWT verification failed:'' e])"
  using assms verifyToken_not_HTTPException[of lib now t "jwtConfig_of config" e]
  by (simp add: jwtAuth_def Let_def jwtConfig_of_def)

lemma jwtAuth_wrong_type:
  assumes "extractToken c = Some t" "t \<noteq> []"
    and "verifyToken lib now t (jwtConfig_of config) = (Inr p, ev)"
    and "type p \<noteq> Some (JStr ''access'')"
  shows "jwtAuth lib now config next c
           = (Inl (HTTPException 401 ''Invalid token type. Access token required.''), ev)"
  using assms by (simp add: jwtAuth_def Let_def jwtConfig_of_def)

lemma refreshTokenAuth_verify_fails:
  assumes "extractToken c = Some t" "t \<noteq> []"
    and "verifyToken lib now t (jwtConfig_of config) = (Inl e, ev)"
  shows "refreshTokenAuth lib now config next c
           = (Inl (HTTPException 401 ''Invalid or expired refresh token''),
              ev @ [ConsoleError ''Refresh token verification failed:'' e])"
  using assms verifyToken_not_HTTPException[of lib now t "jwtConfig_of config" e]
  by (simp add: refreshTokenAuth_def Let_def jwtConfig_of_def)

lemma refreshTokenAuth_wrong_type:
  assumes "extractToken c = Some t" "t \<noteq> []"
    and "verifyToken lib now t (jwtConfig_of config) = (Inr p, ev)"
    and "type p \<noteq> Some (JStr ''refresh'')"
  shows "refreshTokenAuth lib now config next c
           = (Inl (HTTPException 401 ''Invalid token type. Refresh token required.''), ev)"
  using assms by (simp add: refreshTokenAuth_def Let_def jwtConfig_of_def)

lemma access_middlewares_jwtAuth:
  "(cfg, mw) \<in> set (access_middlewares lib now c config getter)
     \<Longrightarrow> mw next c = jwtAuth lib now cfg next c"
  by (auto simp: access_middlewares_def hs256Auth_def rs256Auth_def es256Auth_def Let_def)

lemma refresh_middlewares_refreshTokenAuth:
  "(cfg, mw) \<in> set (refresh_middlewares lib now c config getter)
     \<Longrightarrow> mw next c = refreshTokenAuth lib now cfg next c"
  by (auto simp: refresh_middlewares_def hs256RefreshAuth_def rs256RefreshAuth_def
      es256RefreshAuth_def Let_def)

lemma access_middlewares_jwtAuth_mem:
  "(config, jwtAuth lib now config) \<in> set (access_middlewares lib now c config getter)"
  by (simp add: access_middlewares_def)

lemma refresh_middlewares_refreshTokenAuth_mem:
  "(config, refreshTokenAuth lib now config)
     \<in> set (refresh_middlewares lib now c config getter)"
  by (simp add: refresh_middlewares_def)

lemma respond_thrown_401:
  "fst (chain c) = Inl (HTTPException 401 m) \<Longrightarrow> fst (respond chain c) = request_error 401 m"
  by (cases "chain c") (simp add: respond_def onError_def request_error_def split: prod.splits)

text \<open>
  The \<open>next\<close> that hono hands to a middleware never throws, and an error of a route
  handler behind \<open>hs256Auth\<close> is answered by the error handler with 500, not by the
  \<open>catch\<close> block of the middleware.
\<close>

lemma caught_returns: "\<not> isl (fst (caught rest c))"
  by (cases "rest c") (auto simp: caught_def split: sum.splits prod.splits)

lemma handler_error_behind_jwtAuth:
  "res_status (fst (respond (hs256Auth (accepting_jose (demo_claims ''access'')) 1000
                               hs256_secret (caught throwing_handler))
                      (demo_context (Some ''Bearer h.access.s'') (demo_env (Some ''s3cret'')))))
     = 500"
  by (simp add: respond_def caught_def throwing_handler_def hs256Auth_def jwtAuth_def
      extractToken_def verifyToken_def accepting_jose_def demo_claims_def demo_context_def
      demo_env_def hs256_secret_def lift_jose_def onError_def Let_def)

lemma demo_extract:
  "extractToken (demo_context (Some ''Bearer h.refresh.s'') e) = Some ''h.refresh.s''"
  "extractToken (demo_context (Some ''Bearer h.access.s'') e) = Some ''h.access.s''"
  by (simp_all add: extractToken_def demo_context_def Let_def)

text \<open>
  C2 (type gating). A token that \<open>verifyToken\<close> accepts and whose type is \<open>refresh\<close> is
  rejected with status 401 by \<open>jwtAuth\<close>, \<open>hs256Auth\<close>, \<open>rs256Auth\<close> and \<open>es256Auth\<close>; one
  whose type is \<open>access\<close> is rejected with status 401 by \<open>refreshTokenAuth\<close> and its three
  wrappers. The configuration, hence the algorithm, is arbitrary.
\<close>

theorem type_gating:
  assumes hdr: "extractToken c = Some t" "t \<noteq> []"
    and a: "(cfg, amw) \<in> set (access_middlewares lib now c config getter)"
    and r: "(cfg', rmw) \<in> set (refresh_middlewares lib now c config getter)"
  shows "(\<forall>p. fst (verifyToken lib now t (jwtConfig_of cfg)) = Inr p
              \<and> type p = Some (JStr ''refresh'')
            \<longrightarrow> fst (amw next c)
                  = Inl (HTTPException 401 ''Invalid token type. Access token required.'')
                \<and> res_status (fst (respond (amw next) c)) = 401)
       \<and> (\<forall>p. fst (verifyToken lib now t (jwtConfig_of cfg')) = Inr p
              \<and> type p = Some (JStr ''access'')
            \<longrightarrow> fst (rmw next c)
                  = Inl (HTTPException 401 ''Invalid token type. Refresh token required.'')
                \<and> res_status (fst (respond (rmw next) c)) = 401)"
proof (intro conjI allI impI)
  fix p
  assume v: "fst (verifyToken lib now t (jwtConfig_of cfg)) = Inr p
               \<and> type p = Some (JStr ''refresh'')"
  then have "verifyToken lib now t (jwtConfig_of cfg)
               = (Inr p, snd (verifyToken lib now t (jwtConfig_of cfg)))"
    by (metis prod.collapse)
  from jwtAuth_wrong_type[OF hdr this, of "next"] v
  show g: "fst (amw next c)
             = Inl (HTTPException 401 ''Invalid token type. Access token required.'')"
    by (simp add: access_middlewares_jwtAuth[OF a])
  from respond_thrown_401[of "amw next" c, OF g]
  show "res_status (fst (respond (amw next) c)) = 401"
    by (simp add: request_error_def)
next
  fix p
  assume v: "fst (verifyToken lib now t (jwtConfig_of cfg')) = Inr p
               \<and> type p = Some (JStr ''access'')"
  then have "verifyToken lib now t (jwtConfig_of cfg')
               = (Inr p, snd (verifyToken lib now t (jwtConfig_of cfg')))"
    by (metis prod.collapse)
  from refreshTokenAuth_wrong_type[OF hdr this, of "next"] v
  show g: "fst (rmw next c)
             = Inl (HTTPException 401 ''Invalid token type. Refresh token required.'')"
    by (simp add: refresh_middlewares_refreshTokenAuth[OF r])
  from respond_thrown_401[of "rmw next" c, OF g]
  show "res_status (fst (respond (rmw next) c)) = 401"
    by (simp add: request_error_def)
qed


text \<open>
  An RS256 refresh token at \<open>rs256Auth\<close>, and an ES256 access token at \<open>es256RefreshAuth\<close>.
\<close>

theorem type_gating_witness:
  "res_status (fst (respond (rs256Auth (spec_jose (demo_prims ''RS256'')) 1000
                      rs256_public_key demo_next)
                    (demo_context (Some ''Bearer h.refresh.s'') (demo_env None)))) = 401
   \<and> res_status (fst (respond (es256RefreshAuth (spec_jose (demo_prims ''ES256'')) 1000
                      es256_public_key demo_next)
                    (demo_context (Some ''Bearer h.access.s'') (demo_env None)))) = 401"
proof
  let ?c = "demo_context (Some ''Bearer h.refresh.s'') (demo_env None)"
  let ?lib = "spec_jose (demo_prims ''RS256'')"
  let ?g = rs256_public_key
  have v: "fst (verifyToken ?lib 1000 ''h.refresh.s''
                  (jwtConfig_of \<lparr>algorithm = RS256, secret = None, publicKey = ?g ?c\<rparr>))
             = Inr (demo_claims ''refresh'')"
    by (simp add: verifyToken_def jwtConfig_of_def spec_jose_def spec_jwtVerify_def
        demo_prims_def demo_jws_def demo_claims_def demo_context_def demo_env_def
        importPublicKey_def decodeBase64Key_def lift_jose_def rs256_public_key_def
        es256_public_key_def)
  have m: "(\<lparr>algorithm = RS256, secret = None, publicKey = ?g ?c\<rparr>, rs256Auth ?lib 1000 ?g)
             \<in> set (access_middlewares ?lib 1000 ?c
                      \<lparr>algorithm = RS256, secret = None, publicKey = ?g ?c\<rparr> ?g)"
    and m': "(\<lparr>algorithm = RS256, secret = None, publicKey = ?g ?c\<rparr>,
              refreshTokenAuth ?lib 1000 \<lparr>algorithm = RS256, secret = None, publicKey = ?g ?c\<rparr>)
             \<in> set (refresh_middlewares ?lib 1000 ?c
                      \<lparr>algorithm = RS256, secret = None, publicKey = ?g ?c\<rparr> ?g)"
    by (simp_all add: access_middlewares_def refresh_middlewares_def)
  from type_gating[OF demo_extract(1) _ m m', of demo_next] v
  show "res_status (fst (respond (rs256Auth ?lib 1000 ?g demo_next) ?c)) = 401"
    by (simp add: demo_claims_def)
next
  let ?c = "demo_context (Some ''Bearer h.access.s'') (demo_env None)"
  let ?lib = "spec_jose (demo_prims ''ES256'')"
  let ?g = es256_public_key
  have v: "fst (verifyToken ?lib 1000 ''h.access.s''
                  (jwtConfig_of \<lparr>algorithm = ES256, secret = None, publicKey = ?g ?c\<rparr>))
             = Inr (demo_claims ''access'')"
    by (simp add: verifyToken_def jwtConfig_of_def spec_jose_def spec_jwtVerify_def
        demo_prims_def demo_jws_def demo_claims_def demo_context_def demo_env_def
        importPublicKey_def decodeBase64Key_def lift_jose_def rs256_public_key_def
        es256_public_key_def)
  have m: "(\<lparr>algorithm = ES256, secret = None, publicKey = ?g ?c\<rparr>,
              jwtAuth ?lib 1000 \<lparr>algorithm = ES256, secret = None, publicKey = ?g ?c\<rparr>)
             \<in> set (access_middlewares ?lib 1000 ?c
                      \<lparr>algorithm = ES256, secret = None, publicKey = ?g ?c\<rparr> ?g)"
    and m': "(\<lparr>algorithm = ES256, secret = None, publicKey = ?g ?c\<rparr>, es256RefreshAuth ?lib 1000 ?g)
             \<in> set (refresh_middlewares ?lib 1000 ?c
                      \<lparr>algorithm = ES256, secret = None, publicKey = ?g ?c\<rparr> ?g)"
    by (simp_all add: access_middlewares_def refresh_middlewares_def)
  from type_gating[OF demo_extract(2) _ m m', of demo_next] v
  show "res_status (fst (respond (es256RefreshAuth ?lib 1000 ?g demo_next) ?c)) = 401"
    by (simp add: demo_claims_def)
qed

lemma verifyToken_collapse:
  "fst (verifyToken lib now t cfg) = r \<Longrightarrow>
   verifyToken lib now t cfg = (r, snd (verifyToken lib now t cfg))"
  by (metis prod.collapse)

text \<open>
  C10 (a missing type claim is rejected). A token that \<open>verifyToken\<close> accepts and whose
  \<open>type\<close> claim is absent, or is any value other than the string \<open>access\<close>, is rejected
  with status 401 by the access-token middlewares; one whose \<open>type\<close> is absent or other
  than the string \<open>refresh\<close> is rejected with status 401 by the refresh-token middlewares.
  The check is an equality with the exact string and has no default.
\<close>

theorem missing_type_rejected:
  assumes hdr: "extractToken c = Some t" "t \<noteq> []"
    and a: "(cfg, amw) \<in> set (access_middlewares lib now c config getter)"
    and r: "(cfg', rmw) \<in> set (refresh_middlewares lib now c config getter)"
  shows "(\<forall>p. fst (verifyToken lib now t (jwtConfig_of cfg)) = Inr p
              \<and> type p \<noteq> Some (JStr ''access'')
            \<longrightarrow> fst (amw next c)
                  = Inl (HTTPException 401 ''Invalid token type. Access token required.'')
                \<and> res_status (fst (respond (amw next) c)) = 401)
       \<and> (\<forall>p. fst (verifyToken lib now t (jwtConfig_of cfg')) = Inr p
              \<and> type p \<noteq> Some (JStr ''refresh'')
            \<longrightarrow> fst (rmw next c)
                  = Inl (HTTPException 401 ''Invalid token type. Refresh token required.'')
                \<and> res_status (fst (respond (rmw next) c)) = 401)"
proof (intro conjI allI impI)
  fix p
  assume v: "fst (verifyToken lib now t (jwtConfig_of cfg)) = Inr p
               \<and> type p \<noteq> Some (JStr ''access'')"
  from jwtAuth_wrong_type[OF hdr verifyToken_collapse, of lib now cfg p "next"] v
  show g: "fst (amw next c)
             = Inl (HTTPException 401 ''Invalid token type. Access token required.'')"
    by (simp add: access_middlewares_jwtAuth[OF a])
  from respond_thrown_401[of "amw next" c, OF g]
  show "res_status (fst (respond (amw next) c)) = 401"
    by (simp add: request_error_def)
next
  fix p
  assume v: "fst (verifyToken lib now t (jwtConfig_of cfg')) = Inr p
               \<and> type p \<noteq> Some (JStr ''refresh'')"
  from refreshTokenAuth_wrong_type[OF hdr verifyToken_collapse, of lib now cfg' p "next"] v
  show g: "fst (rmw next c)
             = Inl (HTTPException 401 ''Invalid token type. Refresh token required.'')"
    by (simp add: refresh_middlewares_refreshTokenAuth[OF r])
  from respond_thrown_401[of "rmw next" c, OF g]
  show "res_status (fst (respond (rmw next) c)) = 401"
    by (simp add: request_error_def)
qed

lemma accepting_verify:
  "fst (verifyToken (accepting_jose p) now t
          (jwtConfig_of \<lparr>algorithm = HS256, secret = Some ''s3cret'', publicKey = None\<rparr>))
     = Inr p"
  by (simp add: verifyToken_def jwtConfig_of_def accepting_jose_def lift_jose_def)

text \<open>Verified claims without \<open>type\<close>, at \<open>hs256Auth\<close> and at \<open>hs256RefreshAuth\<close>.\<close>

theorem missing_type_rejected_witness:
  "res_status (fst (respond (hs256Auth (accepting_jose untyped_claims) 1000
                      hs256_secret demo_next)
                    (demo_context (Some ''Bearer h.access.s'') (demo_env (Some ''s3cret''))))) = 401
   \<and> res_status (fst (respond (hs256RefreshAuth (accepting_jose untyped_claims) 1000
                      hs256_secret demo_next)
                    (demo_context (Some ''Bearer h.access.s'') (demo_env (Some ''s3cret''))))) = 401"
proof -
  let ?c = "demo_context (Some ''Bearer h.access.s'') (demo_env (Some ''s3cret''))"
  let ?lib = "accepting_jose untyped_claims"
  let ?g = hs256_secret
  let ?cfg = "\<lparr>algorithm = HS256, secret = Some ''s3cret'', publicKey = None\<rparr>"
  have m: "(?cfg, hs256Auth ?lib 1000 ?g) \<in> set (access_middlewares ?lib 1000 ?c ?cfg ?g)"
    and m': "(?cfg, hs256RefreshAuth ?lib 1000 ?g) \<in> set (refresh_middlewares ?lib 1000 ?c ?cfg ?g)"
    by (simp_all add: access_middlewares_def refresh_middlewares_def demo_context_def demo_env_def
        hs256_secret_def)
  from missing_type_rejected[OF demo_extract(2) _ m m', of demo_next]
    accepting_verify[of untyped_claims 1000 "''h.access.s''"]
  show ?thesis
    by (simp add: untyped_claims_def)
qed

text \<open>
  C5, as the code has it. Every verification failure at a token-protected endpoint is
  answered with status 401. When \<open>verifyToken\<close> fails (bad signature, wrong algorithm,
  expired token, or any other error it throws) the body carries one generic message,
  \<open>Invalid or expired token\<close> at the access-token middlewares and
  \<open>Invalid or expired refresh token\<close> at the refresh-token middlewares, whatever the
  cause, and the cause is written to the console. When the token verifies but has the
  wrong type the body carries the message of the type check,
  \<open>Invalid token type. Access token required.\<close> (resp. \<open>Refresh token required.\<close>).
\<close>

theorem verification_failure_response:
  assumes hdr: "extractToken c = Some t" "t \<noteq> []"
    and a: "(cfg, amw) \<in> set (access_middlewares lib now c config getter)"
    and r: "(cfg', rmw) \<in> set (refresh_middlewares lib now c config getter)"
  shows "(\<forall>e. fst (verifyToken lib now t (jwtConfig_of cfg)) = Inl e
            \<longrightarrow> fst (respond (amw next) c) = request_error 401 ''Invalid or expired token''
                \<and> ConsoleError ''JWT verification failed:'' e \<in> set (snd (amw next c)))
       \<and> (\<forall>p. fst (verifyToken lib now t (jwtConfig_of cfg)) = Inr p
              \<and> type p \<noteq> Some (JStr ''access'')
            \<longrightarrow> fst (respond (amw next) c)
                  = request_error 401 ''Invalid token type. Access token required.'')
       \<and> (\<forall>e. fst (verifyToken lib now t (jwtConfig_of cfg')) = Inl e
            \<longrightarrow> fst (respond (rmw next) c) = request_error 401 ''Invalid or expired refresh token''
                \<and> ConsoleError ''Refresh token verification failed:'' e \<in> set (snd (rmw next c)))
       \<and> (\<forall>p. fst (verifyToken lib now t (jwtConfig_of cfg')) = Inr p
              \<and> type p \<noteq> Some (JStr ''refresh'')
            \<longrightarrow> fst (respond (rmw next) c)
                  = request_error 401 ''Invalid token type. Refresh token required.'')"
proof (intro conjI allI impI)
  fix e
  assume v: "fst (verifyToken lib now t (jwtConfig_of cfg)) = Inl e"
  note j = jwtAuth_verify_fails[OF hdr verifyToken_collapse[OF v], of "next"]
  from j show "ConsoleError ''JWT verification failed:'' e \<in> set (snd (amw next c))"
    by (simp add: access_middlewares_jwtAuth[OF a])
  from j have "fst (amw next c) = Inl (HTTPException 401 ''Invalid or expired token'')"
    by (simp add: access_middlewares_jwtAuth[OF a])
  from respond_thrown_401[of "amw next" c, OF this]
  show "fst (respond (amw next) c) = request_error 401 ''Invalid or expired token''" .
next
  fix p
  assume v: "fst (verifyToken lib now t (jwtConfig_of cfg)) = Inr p
               \<and> type p \<noteq> Some (JStr ''access'')"
  from jwtAuth_wrong_type[OF hdr verifyToken_collapse, of lib now cfg p "next"] v
  have "fst (amw next c)
          = Inl (HTTPException 401 ''Invalid token type. Access token required.'')"
    by (simp add: access_middlewares_jwtAuth[OF a])
  from respond_thrown_401[of "amw next" c, OF this]
  show "fst (respond (amw next) c)
          = request_error 401 ''Invalid token type. Access token required.''" .
next
  fix e
  assume v: "fst (verifyToken lib now t (jwtConfig_of cfg')) = Inl e"
  note j = refreshTokenAuth_verify_fails[OF hdr verifyToken_collapse[OF v], of "next"]
  from j show "ConsoleError ''Refresh token verification failed:'' e \<in> set (snd (rmw next c))"
    by (simp add: refresh_middlewares_refreshTokenAuth[OF r])
  from j have "fst (rmw next c) = Inl (HTTPException 401 ''Invalid or expired refresh token'')"
    by (simp add: refresh_middlewares_refreshTokenAuth[OF r])
  from respond_thrown_401[of "rmw next" c, OF this]
  show "fst (respond (rmw next) c) = request_error 401 ''Invalid or expired refresh token''" .
next
  fix p
  assume v: "fst (verifyToken lib now t (jwtConfig_of cfg')) = Inr p
               \<and> type p \<noteq> Some (JStr ''refresh'')"
  from refreshTokenAuth_wrong_type[OF hdr verifyToken_collapse, of lib now cfg' p "next"] v
  have "fst (rmw next c)
          = Inl (HTTPException 401 ''Invalid token type. Refresh token required.'')"
    by (simp add: refresh_middlewares_refreshTokenAuth[OF r])
  from respond_thrown_401[of "rmw next" c, OF this]
  show "fst (respond (rmw next) c)
          = request_error 401 ''Invalid token type. Refresh token required.''" .
qed

text \<open>An expired HS256 token at \<open>hs256Auth\<close> and at \<open>hs256RefreshAuth\<close>.\<close>

theorem verification_failure_response_witness:
  "fst (respond (hs256Auth (spec_jose (demo_prims ''HS256'')) 1900 hs256_secret demo_next)
          (demo_context (Some ''Bearer h.access.s'') (demo_env (Some ''s3cret''))))
     = request_error 401 ''Invalid or expired token''
   \<and> fst (respond (hs256RefreshAuth (spec_jose (demo_prims ''HS256'')) 1900 hs256_secret demo_next)
          (demo_context (Some ''Bearer h.access.s'') (demo_env (Some ''s3cret''))))
     = request_error 401 ''Invalid or expired refresh token''"
proof -
  let ?c = "demo_context (Some ''Bearer h.access.s'') (demo_env (Some ''s3cret''))"
  let ?lib = "spec_jose (demo_prims ''HS256'')"
  let ?cfg = "\<lparr>algorithm = HS256, secret = Some ''s3cret'', publicKey = None\<rparr>"
  let ?e = "JOSEError (JoseErr ''ERR_JWT_EXPIRED'' ''exp claim timestamp check failed'')"
  have m: "(?cfg, hs256Auth ?lib 1900 hs256_secret)
             \<in> set (access_middlewares ?lib 1900 ?c ?cfg hs256_secret)"
    and m': "(?cfg, hs256RefreshAuth ?lib 1900 hs256_secret)
             \<in> set (refresh_middlewares ?lib 1900 ?c ?cfg hs256_secret)"
    by (simp_all add: access_middlewares_def refresh_middlewares_def demo_context_def
        demo_env_def hs256_secret_def)
  have v: "fst (verifyToken ?lib 1900 ''h.access.s'' (jwtConfig_of ?cfg)) = Inl ?e"
    by (simp add: verifyToken_def jwtConfig_of_def spec_jose_def spec_jwtVerify_def
        demo_prims_def demo_jws_def demo_claims_def lift_jose_def)
  from verification_failure_response[OF demo_extract(2) _ m m', of demo_next] v
  show ?thesis by simp
qed

text \<open>
  C5 as stated fails: a valid refresh token at \<open>hs256Auth\<close> is a failure by wrong token
  type, and the body says so instead of \<open>Invalid or expired token\<close>.
\<close>

theorem uniform_message_counterexample:
  "fst (verifyToken (spec_jose (demo_prims ''HS256'')) 1000 ''h.refresh.s'' (demo_config HS256))
     = Inr (demo_claims ''refresh'')
   \<and> fst (respond (hs256Auth (spec_jose (demo_prims ''HS256'')) 1000 hs256_secret demo_next)
            (demo_context (Some ''Bearer h.refresh.s'') (demo_env (Some ''s3cret''))))
       = request_error 401 ''Invalid token type. Access token required.''
   \<and> request_error 401 ''Invalid token type. Access token required.''
       \<noteq> request_error 401 ''Invalid or expired token''"
  by (simp add: respond_def hs256Auth_def jwtAuth_def extractToken_def verifyToken_def
      spec_jose_def spec_jwtVerify_def demo_prims_def demo_jws_def demo_claims_def
      demo_config_def demo_context_def demo_env_def hs256_secret_def lift_jose_def
      getHS256Key_def onError_def request_error_def Let_def)

lemma verifyToken_missing_key:
  "missing_key cfg \<Longrightarrow>
   verifyToken lib now t (jwtConfig_of cfg) = (Inl (missing_key_error cfg), [])"
  by (simp add: verifyToken_def jwtConfig_of_def missing_key_def missing_key_error_def
      split: if_splits)

text \<open>
  What every token middleware does when the verification key is absent (no secret for
  HS256, no public key for RS256 and ES256) and the request carries a bearer token:
  \<open>verifyToken\<close> throws a configuration error of its own, before any call to jose; the
  \<open>catch\<close> block takes it for a failed verification, writes it to the console and throws
  \<open>HTTPException\<close> 401.
\<close>

lemma missing_key_caught_as_401:
  assumes hdr: "extractToken c = Some t" "t \<noteq> []"
    and a: "(cfg, amw) \<in> set (access_middlewares lib now c config getter)"
    and r: "(cfg', rmw) \<in> set (refresh_middlewares lib now c config getter)"
    and k: "missing_key cfg" and k': "missing_key cfg'"
  shows "verifyToken lib now t (jwtConfig_of cfg) = (Inl (missing_key_error cfg), [])
       \<and> amw next c = (Inl (HTTPException 401 ''Invalid or expired token''),
                        [ConsoleError ''JWT verification failed:'' (missing_key_error cfg)])
       \<and> fst (respond (amw next) c) = request_error 401 ''Invalid or expired token''
       \<and> verifyToken lib now t (jwtConfig_of cfg') = (Inl (missing_key_error cfg'), [])
       \<and> rmw next c = (Inl (HTTPException 401 ''Invalid or expired refresh token''),
                        [ConsoleError ''Refresh token verification failed:''
                           (missing_key_error cfg')])
       \<and> fst (respond (rmw next) c) = request_error 401 ''Invalid or expired refresh token''"
proof -
  note v = verifyToken_missing_key[OF k, of lib now t]
  note v' = verifyToken_missing_key[OF k', of lib now t]
  have j: "amw next c = (Inl (HTTPException 401 ''Invalid or expired token''),
                         [ConsoleError ''JWT verification failed:'' (missing_key_error cfg)])"
    using jwtAuth_verify_fails[OF hdr v, of "next"]
    by (simp add: access_middlewares_jwtAuth[OF a])
  have j': "rmw next c = (Inl (HTTPException 401 ''Invalid or expired refresh token''),
                         [ConsoleError ''Refresh token verification failed:''
                            (missing_key_error cfg')])"
    using refreshTokenAuth_verify_fails[OF hdr v', of "next"]
    by (simp add: refresh_middlewares_refreshTokenAuth[OF r])
  from j have "fst (amw next c) = Inl (HTTPException 401 ''Invalid or expired token'')"
    by simp
  note s = respond_thrown_401[of "amw next" c, OF this]
  from j' have "fst (rmw next c) = Inl (HTTPException 401 ''Invalid or expired refresh token'')"
    by simp
  note s' = respond_thrown_401[of "rmw next" c, OF this]
  from v v' j j' s s' show ?thesis by simp
qed

text \<open>
  The sibling path: the token generators throw the same kind of error for a missing key,
  the login and refresh handlers do not catch it, and \<open>app.onError\<close> answers it with 500.
\<close>

lemma generator_missing_key_500:
  assumes "algorithm config = HS256 \<and> falsy (secret config)
           \<or> algorithm config \<noteq> HS256 \<and> falsy (privateKey config)"
  shows "isl (fst (generateAccessToken lib now payload config))
       \<and> isl (fst (generateRefreshToken lib now payload config))
       \<and> (\<forall>e. fst (generateAccessToken lib now payload config) = Inl e
                \<or> fst (generateRefreshToken lib now payload config) = Inl e
              \<longrightarrow> res_status (fst (onError e)) = 500)"
  using assms
  by (auto simp: generateAccessToken_def generateRefreshToken_def onError_def Let_def)

text \<open>
  C6 (configuration-fault separation), at the failing input. Nothing is configured; a
  request with a bearer token to an endpoint behind \<open>hs256Auth\<close> is answered with 401 and
  the message of a failed verification, the configuration error going to the console
  only; likewise behind \<open>rs256RefreshAuth\<close>. The claim asks for a status of the 5xx class.
\<close>

theorem missing_key_answered_401:
  "hs256Auth (spec_jose (demo_prims ''HS256'')) 1000 hs256_secret demo_next
       (demo_context (Some ''Bearer h.access.s'') unconfigured_env)
     = (Inl (HTTPException 401 ''Invalid or expired token''),
        [ConsoleError ''JWT verification failed:'' (Error ''Secret is required for HS256'')])
   \<and> fst (respond (hs256Auth (spec_jose (demo_prims ''HS256'')) 1000 hs256_secret demo_next)
            (demo_context (Some ''Bearer h.access.s'') unconfigured_env))
       = request_error 401 ''Invalid or expired token''
   \<and> fst (respond (rs256RefreshAuth (spec_jose (demo_prims ''HS256'')) 1000 rs256_public_key
                     demo_next)
            (demo_context (Some ''Bearer h.access.s'') unconfigured_env))
       = request_error 401 ''Invalid or expired refresh token''
   \<and> \<not> 500 \<le> res_status
                 (fst (respond (hs256Auth (spec_jose (demo_prims ''HS256'')) 1000 hs256_secret
                                  demo_next)
                         (demo_context (Some ''Bearer h.access.s'') unconfigured_env)))"
  by (simp add: respond_def hs256Auth_def rs256RefreshAuth_def jwtAuth_def
      refreshTokenAuth_def extractToken_def verifyToken_def demo_context_def
      unconfigured_env_def hs256_secret_def rs256_public_key_def onError_def
      request_error_def Let_def)

text \<open>
  C7 (bearer extraction). When the \<open>Authorization\<close> header is missing, or does not split
  at spaces into exactly two parts, or its first part is not \<open>Bearer\<close>, \<open>extractToken\<close>
  returns nothing and every token middleware throws \<open>HTTPException\<close> 401 with no event
  before it: no key is decoded or imported and jose is not called. The request is
  answered with status 401.
\<close>

theorem bearer_extraction:
  assumes h: "case req_header c ''Authorization'' of
                None \<Rightarrow> True
              | Some h \<Rightarrow> length (js_split CHR '' '' h) \<noteq> 2
                          \<or> js_split CHR '' '' h ! 0 \<noteq> ''Bearer''"
    and a: "(cfg, amw) \<in> set (access_middlewares lib now c config getter)"
    and r: "(cfg', rmw) \<in> set (refresh_middlewares lib now c config getter)"
  shows "extractToken c = None
       \<and> amw next c
           = (Inl (HTTPException 401 ''Authorization header is missing or invalid''), [])
       \<and> rmw next c
           = (Inl (HTTPException 401 ''Authorization header is missing or invalid''), [])
       \<and> fst (respond (amw next) c)
           = request_error 401 ''Authorization header is missing or invalid''
       \<and> fst (respond (rmw next) c)
           = request_error 401 ''Authorization header is missing or invalid''"
proof -
  from h have e: "extractToken c = None"
    by (auto simp: extractToken_def Let_def split: option.splits)
  then have f: "falsy (extractToken c)" by simp
  have j: "amw next c
             = (Inl (HTTPException 401 ''Authorization header is missing or invalid''), [])"
    using jwtAuth_no_token[OF f] by (simp add: access_middlewares_jwtAuth[OF a])
  have j': "rmw next c
             = (Inl (HTTPException 401 ''Authorization header is missing or invalid''), [])"
    using refreshTokenAuth_no_token[OF f] by (simp add: refresh_middlewares_refreshTokenAuth[OF r])
  from j have "fst (amw next c)
                 = Inl (HTTPException 401 ''Authorization header is missing or invalid'')"
    by simp
  note s = respond_thrown_401[of "amw next" c, OF this]
  from j' have "fst (rmw next c)
                 = Inl (HTTPException 401 ''Authorization header is missing or invalid'')"
    by simp
  note s' = respond_thrown_401[of "rmw next" c, OF this]
  from e j j' s s' show ?thesis by simp
qed

text \<open>A \<open>Basic\<close> header, a header of three parts, and no header.\<close>

theorem bearer_extraction_witness:
  "es256Auth (spec_jose (demo_prims ''ES256'')) 1000 es256_public_key demo_next
       (demo_context (Some ''Basic dXNlcjpwdw=='') (demo_env None))
     = (Inl (HTTPException 401 ''Authorization header is missing or invalid''), [])
   \<and> hs256RefreshAuth (spec_jose (demo_prims ''ES256'')) 1000 es256_public_key demo_next
       (demo_context (Some ''Bearer a b'') (demo_env None))
     = (Inl (HTTPException 401 ''Authorization header is missing or invalid''), [])
   \<and> fst (respond (jwtAuth (spec_jose (demo_prims ''ES256'')) 1000 (demo_middleware_config ES256) demo_next)
            (demo_context None (demo_env None)))
     = request_error 401 ''Authorization header is missing or invalid''"
proof -
  let ?lib = "spec_jose (demo_prims ''ES256'')"
  let ?g = es256_public_key
  have m: "(\<lparr>algorithm = ES256, secret = None, publicKey = ?g c\<rparr>, es256Auth ?lib 1000 ?g)
             \<in> set (access_middlewares ?lib 1000 c cfg ?g)"
    and m': "(\<lparr>algorithm = HS256, secret = ?g c, publicKey = None\<rparr>, hs256RefreshAuth ?lib 1000 ?g)
             \<in> set (refresh_middlewares ?lib 1000 c cfg ?g)"
    and m'': "(cfg, jwtAuth ?lib 1000 cfg) \<in> set (access_middlewares ?lib 1000 c cfg ?g)"
    for c cfg
    by (simp_all add: access_middlewares_def refresh_middlewares_def)
  from bearer_extraction[OF _ m[of "demo_context (Some ''Basic dXNlcjpwdw=='') (demo_env None)"
        "demo_middleware_config ES256"] m']
  have 1: "es256Auth ?lib 1000 ?g demo_next
             (demo_context (Some ''Basic dXNlcjpwdw=='') (demo_env None))
           = (Inl (HTTPException 401 ''Authorization header is missing or invalid''), [])"
    by (simp add: demo_context_def)
  from bearer_extraction[OF _ m[of "demo_context (Some ''Bearer a b'') (demo_env None)"
        "demo_middleware_config ES256"] m']
  have 2: "hs256RefreshAuth ?lib 1000 ?g demo_next
             (demo_context (Some ''Bearer a b'') (demo_env None))
           = (Inl (HTTPException 401 ''Authorization header is missing or invalid''), [])"
    by (simp add: demo_context_def)
  from bearer_extraction[OF _ m''[of "demo_middleware_config ES256"
        "demo_context None (demo_env None)"] m']
  have 3: "fst (respond (jwtAuth ?lib 1000 (demo_middleware_config ES256) demo_next)
                  (demo_context None (demo_env None)))
           = request_error 401 ''Authorization header is missing or invalid''"
    by (simp add: demo_context_def)
  from 1 2 3 show ?thesis by simp
qed

section \<open>The request logger\<close>

lemma saveLog_returns: "fst (saveLog d1 db log_row) = Inr ()"
  by (simp add: saveLog_def split: option.splits)

lemma requestLogger_passes_on:
  "fst (requestLogger d1 clk next c) = fst (next (c\<lparr>requestId := Some (randomUUID clk)\<rparr>))"
  by (simp add: requestLogger_def Let_def split: prod.splits)

lemma respond_fst: "fst (chain c) = fst (chain' c') \<Longrightarrow> fst (respond chain c) = fst (respond chain' c')"
  by (cases "chain c"; cases "chain' c'") (auto simp: respond_def split: sum.splits prod.splits)

text \<open>
  C8 (logging isolation). \<open>saveLog\<close> never throws; \<open>requestLogger\<close> passes on the outcome
  of the rest of the chain unchanged; so the outcome of the request and the response
  (status and body) are the same for any two behaviours \<open>w\<close> and \<open>w'\<close> of the database,
  one where the insert succeeds and one where it fails.
\<close>

theorem logging_isolation:
  "fst (saveLog w db log_row) = Inr ()
   \<and> fst (requestLogger w clk next c) = fst (next (c\<lparr>requestId := Some (randomUUID clk)\<rparr>))
   \<and> fst (requestLogger w clk next c) = fst (requestLogger w' clk next c)
   \<and> fst (respond (requestLogger w clk next) c) = fst (respond (requestLogger w' clk next) c)"
proof -
  have e: "fst (requestLogger w clk next c) = fst (requestLogger w' clk next c)"
    by (simp add: requestLogger_passes_on)
  from respond_fst[of "requestLogger w clk next" c "requestLogger w' clk next" c, OF e]
    saveLog_returns requestLogger_passes_on e
  show ?thesis by simp
qed

text \<open>The same 200 response with a database that rejects the insert and with one that takes it.\<close>

theorem logging_isolation_witness:
  "fst (respond (requestLogger d1_failing demo_clock demo_next)
          (demo_context None (demo_env None)))
     = \<lparr>res_status = 200, res_body = JObj []\<rparr>
   \<and> fst (respond (requestLogger d1_working demo_clock demo_next)
            (demo_context None (demo_env None)))
     = \<lparr>res_status = 200, res_body = JObj []\<rparr>"
proof -
  have "fst (respond (requestLogger d1_working demo_clock demo_next)
               (demo_context None (demo_env None)))
          = \<lparr>res_status = 200, res_body = JObj []\<rparr>"
    by (simp add: respond_def requestLogger_def demo_next_def demo_context_def Let_def
        split: prod.splits)
  with logging_isolation[where w = d1_failing and w' = d1_working and clk = demo_clock
      and c = "demo_context None (demo_env None)"]
  show ?thesis by simp
qed

section \<open>The password routes\<close>

lemma parseInt_examples:
  "parseInt ''600000'' = Fin 600000"
  "parseInt (CHR 0xA0 # ''5000'') = Fin 5000"
  "parseInt '' -12px'' = Fin (- 12)"
  "parseInt ''abc'' = NaN"
  by (simp_all add: parseInt_def is_space_def is_digit_def digits_value_def Let_def)

lemma clamp_bounds:
  "x \<noteq> NaN \<Longrightarrow> within_bounds (Math_min (Math_max x (Fin 1000)) (Fin 100000))"
  by (cases x) (auto simp: within_bounds_def Math_min_def Math_max_def)

lemma clamp_NaN: "Math_min (Math_max NaN (Fin 1000)) (Fin 100000) = NaN"
  by (simp add: Math_min_def Math_max_def)

lemma clamp_ok:
  "(strict \<longrightarrow> x \<noteq> NaN) \<Longrightarrow> count_ok strict (Math_min (Math_max x (Fin 1000)) (Fin 100000))"
  using clamp_bounds[of x] clamp_NaN by (cases "x = NaN") (auto simp: count_ok_def)

lemma hashPassword_events: "snd (hashPassword pf p s n) = [DeriveBits n]"
  by (simp add: hashPassword_def split: sum.splits)

lemma verifyPassword_events: "snd (verifyPassword pf p s h n) = [DeriveBits n]"
  using hashPassword_events[of pf p s n]
  by (cases "hashPassword pf p s n") (auto simp: verifyPassword_def split: sum.splits)

lemma get_user_ok:
  "store_ok strict store \<Longrightarrow> get_user store k = Some u \<Longrightarrow> count_ok strict (iterations u)"
  by (auto simp: store_ok_def get_user_def ran_def split: option.splits jsval.splits)

lemma store_ok_upd:
  "store_ok strict store \<Longrightarrow> count_ok strict (iterations u) \<Longrightarrow> store_ok strict (store(k \<mapsto> u))"
  by (auto simp: store_ok_def ran_def split: if_splits)

lemma hashPassword_eqD: "hashPassword pf p s n = (x, ev) \<Longrightarrow> ev = [DeriveBits n]"
  using hashPassword_events[of pf p s n] by simp

lemma verifyPassword_eqD: "verifyPassword pf p s h n = (x, ev) \<Longrightarrow> ev = [DeriveBits n]"
  using verifyPassword_events[of pf p s h n] by simp

lemma login_ok:
  assumes s: "store_ok strict store"
    and q: "strict \<longrightarrow> numeric_request pf (Login s1 s2 el c)"
    and l: "login pf s1 s2 el store c = ((r, ev), store')"
  shows "store_ok strict store' \<and> (\<forall>n. DeriveBits n \<in> set ev \<longrightarrow> count_ok strict n)"
proof -
  let ?n = "if falsy (req_query c ''iterations'') then Fin 100000
            else parseInt (the (req_query c ''iterations''))"
  let ?safe = "Math_min (Math_max ?n (Fin 1000)) (Fin 100000)"
  have safe: "count_ok strict ?safe"
    using q by (intro clamp_ok) auto
  note u = get_user_ok[OF s]
  show ?thesis
    using l safe u s
    apply (simp add: login_def Let_def split: if_splits prod.splits sum.splits option.splits)
        apply (auto dest!: hashPassword_eqD verifyPassword_eqD intro!: store_ok_upd)
    done
qed

lemma hash_ok:
  assumes q: "strict \<longrightarrow> numeric_request pf (Hash s1 el c)"
    and h: "hash pf s1 el c = (r, ev)"
  shows "\<forall>n. DeriveBits n \<in> set ev \<longrightarrow> count_ok strict n"
proof -
  let ?requested = "case req_json c ''iterations'' of
                      None \<Rightarrow> Fin 100000
                    | Some v \<Rightarrow> if truthy v then number_of pf v else Fin 100000"
  have "strict \<longrightarrow> ?requested \<noteq> NaN"
    using q by (auto split: option.splits)
  then have safe: "count_ok strict (Math_min (Math_max ?requested (Fin 1000)) (Fin 100000))"
    by (rule clamp_ok)
  show ?thesis
    using h safe
    by (auto simp: hash_def Let_def split: prod.splits sum.splits dest!: hashPassword_eqD)
qed

lemma serve_ok:
  assumes "store_ok strict store"
    and "strict \<longrightarrow> (\<forall>r \<in> set rs. numeric_request pf r)"
    and "DeriveBits n \<in> set (serve pf store rs)"
  shows "count_ok strict n"
  using assms
proof (induction rs arbitrary: store)
  case Nil
  then show ?case by simp
next
  case (Cons rq rs)
  show ?case
  proof (cases rq)
    case (Login s1 s2 el c)
    obtain r ev store' where l: "login pf s1 s2 el store c = ((r, ev), store')"
      by (metis prod.collapse)
    from Cons.prems(2) Login have q: "strict \<longrightarrow> numeric_request pf (Login s1 s2 el c)"
      by simp
    from login_ok[OF Cons.prems(1) q l]
    have s': "store_ok strict store'"
      and e: "\<forall>n. DeriveBits n \<in> set ev \<longrightarrow> count_ok strict n" by simp_all
    from Cons.prems(3) Login l
    have "DeriveBits n \<in> set ev \<or> DeriveBits n \<in> set (serve pf store' rs)" by simp
    then show ?thesis
    proof
      assume "DeriveBits n \<in> set ev" with e show ?thesis by simp
    next
      assume "DeriveBits n \<in> set (serve pf store' rs)"
      with Cons.IH[OF s'] Cons.prems(2) show ?thesis by simp
    qed
  next
    case (Hash s1 el c)
    obtain r ev where h: "hash pf s1 el c = (r, ev)"
      by (metis prod.collapse)
    from Cons.prems(2) Hash have q: "strict \<longrightarrow> numeric_request pf (Hash s1 el c)"
      by simp
    note e = hash_ok[OF q h]
    from Cons.prems(3) Hash h
    have "DeriveBits n \<in> set ev \<or> DeriveBits n \<in> set (serve pf store rs)" by simp
    then show ?thesis
    proof
      assume "DeriveBits n \<in> set ev" with e show ?thesis by simp
    next
      assume "DeriveBits n \<in> set (serve pf store rs)"
      with Cons.IH[OF Cons.prems(1)] Cons.prems(2) show ?thesis by simp
    qed
  qed
qed

lemma store_ok_empty: "store_ok strict Map.empty"
  by (simp add: store_ok_def)

text \<open>
  What holds of the counts. Over any sequence of requests to \<open>/login\<close> and \<open>/hash\<close> from
  the empty user store, on any platform, no count \<open>n\<close> passed to PBKDF2 exceeds 100000;
  and when every request supplies a number or nothing, every count lies in
  [1000, 100000].
\<close>

lemma numeric_counts_within_bounds:
  assumes "DeriveBits n \<in> set (serve pf Map.empty rs)"
  shows "\<not> num_gt n (Fin 100000)
       \<and> ((\<forall>r \<in> set rs. numeric_request pf r) \<longrightarrow> within_bounds n)"
proof
  from serve_ok[OF store_ok_empty _ assms, of False]
  have "within_bounds n \<or> n = NaN" by (simp add: count_ok_def)
  then show "\<not> num_gt n (Fin 100000)"
    by (auto simp: num_gt_def within_bounds_def)
  show "(\<forall>r \<in> set rs. numeric_request pf r) \<longrightarrow> within_bounds n"
  proof
    assume "\<forall>r \<in> set rs. numeric_request pf r"
    with serve_ok[OF store_ok_empty _ assms, of True]
    show "within_bounds n" by (simp add: count_ok_def)
  qed
qed

text \<open>
  Three requests: a login asking for 600000, a login asking for 1 (the user is stored by
  then), and a hash asking for 5, which runs with 1000.
\<close>

lemma demo_serve:
  "serve demo_platform Map.empty demo_requests
     = [DeriveBits (Fin 100000), DeriveBits (Fin 100000), DeriveBits (Fin 100000),
        DeriveBits (Fin 1000)]"
  by (simp add: demo_requests_def demo_platform_def password_context_def unconfigured_env_def
      login_def hash_def hashPassword_def verifyPassword_def get_user_def parseInt_def
      is_space_def is_digit_def digits_value_def Math_min_def Math_max_def number_of_def
      saltToBase64_def base64ToSalt_def Let_def)

text \<open>
  C9 (PBKDF2 iteration bound), at the failing input. For \<open>POST /login?iterations=abc\<close>
  \<open>parseInt\<close> gives \<open>NaN\<close>, both bounds pass \<open>NaN\<close> on, and PBKDF2 is called with \<open>NaN\<close>,
  for the registration of the user and again for the check: a count that is not in
  [1000, 100000]. The claim asks that whatever the client supplies is brought into that
  range.
\<close>

theorem pbkdf2_count_not_clamped:
  "parseInt ''abc'' = NaN
   \<and> Math_min (Math_max (parseInt ''abc'') (Fin 1000)) (Fin 100000) = NaN
   \<and> serve demo_platform Map.empty abc_requests = [DeriveBits NaN, DeriveBits NaN]
   \<and> \<not> within_bounds NaN"
  by (simp add: abc_requests_def demo_platform_def password_context_def unconfigured_env_def
      login_def hashPassword_def verifyPassword_def get_user_def parseInt_def
      is_space_def is_digit_def Math_min_def Math_max_def within_bounds_def
      saltToBase64_def base64ToSalt_def Let_def)

end
